theory Spec2Isabelle
  imports Complex_Main
begin

section \<open>Export pipeline stages\<close>

text \<open>
  The pausable and the batching stage (\<^verbatim>\<open>exporters/pausable.ts\<close>,
  \<^verbatim>\<open>exporters/batching.ts\<close>) never look inside an export item, so both are modelled
  over an arbitrary item type \<open>'a\<close>.  A stage is a closure over private mutable variables;
  the model passes these variables as a state record and returns the new state together
  with the list of calls made to the inner exporter (each call is the list of its
  arguments).  A failure of the inner exporter propagates to the caller of the stage; it
  happens after the stage has updated its own variables, so the state transitions below
  do not depend on it.  The inner exporter is taken not to call back into the stage that
  calls it.
\<close>

subsection \<open>Array.prototype.splice(0, n)\<close>

text \<open>
  \<^verbatim>\<open>arr.splice(0, n)\<close> removes the first \<open>n\<close> elements (clamped to \<open>0 .. length\<close>)
  and returns them; the array keeps the rest.
\<close>

definition splice0 :: "int \<Rightarrow> 'a list \<Rightarrow> 'a list \<times> 'a list" where
  "splice0 n xs = (take (nat n) xs, drop (nat n) xs)"

subsection \<open>Pausable stage\<close>

text \<open>
  Both stages own an array \<^verbatim>\<open>pending\<close>; the two state records extend a common one
  so that the field keeps the name it has in the source.  The option records have every
  field optional, as the TypeScript interfaces do; the options argument itself may be
  absent.  \<^verbatim>\<open>maxQueueSize\<close> exists in both interfaces; the pausable one is written
  \<open>pq_maxQueueSize\<close> here.
\<close>

record 'a stage_queue =
  pending :: "'a list"

record PausableExporterOptions =
  startPaused :: "bool option"
  pq_maxQueueSize :: "int option"

record 'a pausable_state = "'a stage_queue" +
  paused :: bool

text \<open>\<^verbatim>\<open>let paused = options?.startPaused === true; const pending = [];\<close>\<close>

definition pausable_init :: "PausableExporterOptions option \<Rightarrow> 'a pausable_state" where
  "pausable_init options =
     \<lparr>pending = [],
      paused = (case options of None \<Rightarrow> False | Some opts \<Rightarrow> startPaused opts = Some True)\<rparr>"

text \<open>\<^verbatim>\<open>options?.maxQueueSize ?? 100000\<close>\<close>

definition pausable_maxQueueSize :: "PausableExporterOptions option \<Rightarrow> int" where
  "pausable_maxQueueSize options =
     (case options of None \<Rightarrow> 100000
      | Some opts \<Rightarrow> (case pq_maxQueueSize opts of None \<Rightarrow> 100000 | Some n \<Rightarrow> n))"

text \<open>The inner function \<^verbatim>\<open>pausableExporter(...events)\<close>: new state and inner calls.\<close>

definition pausableExporter ::
  "PausableExporterOptions option \<Rightarrow> 'a list \<Rightarrow> 'a pausable_state
     \<Rightarrow> 'a pausable_state \<times> 'a list list" where
  "pausableExporter options events st =
     (if paused st then
        (let p = pending st @ events;
             p' = (if int (length p) > pausable_maxQueueSize options
                   then snd (splice0 (int (length p) - pausable_maxQueueSize options) p)
                   else p)
         in (st\<lparr>pending := p'\<rparr>, []))
      else (st, [events]))"

text \<open>
  \<^verbatim>\<open>toggle(on?)\<close>: returns the new value of \<^verbatim>\<open>paused\<close>, the new state and the inner
  calls.
\<close>

definition toggle ::
  "bool option \<Rightarrow> 'a pausable_state \<Rightarrow> bool \<times> 'a pausable_state \<times> 'a list list" where
  "toggle on st =
     (let p = (case on of Some b \<Rightarrow> b | None \<Rightarrow> \<not> paused st)
      in if \<not> p \<and> pending st \<noteq> []
         then (p, \<lparr>pending = [], paused = p\<rparr>, [pending st])
         else (p, st\<lparr>paused := p\<rparr>, []))"

text \<open>The two ways a client can act on the stage, and a run of such actions.\<close>

datatype 'a pausable_action = Submit "'a list" | Toggle "bool option"

fun pausable_step ::
  "PausableExporterOptions option \<Rightarrow> 'a pausable_state \<times> 'a list list
     \<Rightarrow> 'a pausable_action \<Rightarrow> 'a pausable_state \<times> 'a list list" where
  "pausable_step options (st, calls) (Submit events) =
     (case pausableExporter options events st of (st', cs) \<Rightarrow> (st', calls @ cs))"
| "pausable_step options (st, calls) (Toggle on) =
     (case toggle on st of (_, st', cs) \<Rightarrow> (st', calls @ cs))"

definition pausable_run ::
  "PausableExporterOptions option \<Rightarrow> 'a pausable_action list
     \<Rightarrow> 'a pausable_state \<times> 'a list list" where
  "pausable_run options acts = foldl (pausable_step options) (pausable_init options, []) acts"

subsection \<open>Batching stage\<close>

record BatchingExportOptions =
  interval :: "int option"
  batchingInterval :: "int option"
  maxBatchSize :: "int option"
  maxQueueSize :: "int option"

text \<open>
  \<^verbatim>\<open>options?.field ?? dflt\<close>: the field of the options object when the object and the
  field are both present, the default otherwise.
\<close>

definition opt_or :: "'o option \<Rightarrow> ('o \<Rightarrow> 'v option) \<Rightarrow> 'v \<Rightarrow> 'v" where
  "opt_or options field dflt =
     (case options of None \<Rightarrow> dflt
      | Some opts \<Rightarrow> (case field opts of None \<Rightarrow> dflt | Some v \<Rightarrow> v))"

text \<open>
  \<^verbatim>\<open>timer\<close> is \<^verbatim>\<open>null\<close> or the handle of the one armed timeout; the model keeps the
  delay the timeout was armed with.
\<close>

record 'a batching_state = "'a stage_queue" +
  timer :: "int option"

definition batching_init :: "'a batching_state" where
  "batching_init = \<lparr>pending = [], timer = None\<rparr>"

text \<open>
  \<^verbatim>\<open>processBatch()\<close>, the timer callback (also run by the teardown listeners): new state
  and inner calls.
\<close>

definition processBatch ::
  "BatchingExportOptions option \<Rightarrow> 'a batching_state \<Rightarrow> 'a batching_state \<times> 'a list list" where
  "processBatch options st =
     (case splice0 (opt_or options maxBatchSize 35) (pending st) of
        (batch, rest) \<Rightarrow>
          (\<lparr>pending = rest,
            timer = (if rest \<noteq> []
                     then Some (opt_or options batchingInterval (opt_or options interval 1000))
                     else None)\<rparr>,
           if batch \<noteq> [] then [batch] else []))"

text \<open>The returned function \<^verbatim>\<open>batchingExporter(...events)\<close>; it makes no inner call.\<close>

definition batchingExporter ::
  "BatchingExportOptions option \<Rightarrow> 'a list \<Rightarrow> 'a batching_state \<Rightarrow> 'a batching_state" where
  "batchingExporter options events st =
     (let p = pending st @ events;
          p' = (if int (length p) > opt_or options maxQueueSize 100000
                then snd (splice0 (int (length p) - opt_or options maxQueueSize 1000) p)
                else p)
      in \<lparr>pending = p',
          timer = (if timer st = None then Some (opt_or options interval 1000) else timer st)\<rparr>)"

text \<open>Several submissions in a row, with no timer firing in between.\<close>

definition submit_all ::
  "BatchingExportOptions option \<Rightarrow> 'a list list \<Rightarrow> 'a batching_state \<Rightarrow> 'a batching_state" where
  "submit_all options batches st = foldl (\<lambda>s events. batchingExporter options events s) st batches"

text \<open>
  Letting every armed timer fire, with no submission in between: as long as a timer is
  armed it fires and runs \<^verbatim>\<open>processBatch\<close>, which may arm the next one.  With a
  \<^verbatim>\<open>maxBatchSize\<close> below 1 and a non-empty queue this never ends, so the result is an
  option: \<open>None\<close> when the timers keep firing forever, otherwise the final state and all
  inner calls in the order they were made.
\<close>

partial_function (option) fire_timers ::
  "BatchingExportOptions option \<Rightarrow> 'a batching_state
     \<Rightarrow> ('a batching_state \<times> 'a list list) option" where
  "fire_timers options st =
     (case timer st of
        None \<Rightarrow> Some (st, [])
      | Some delay \<Rightarrow>
          (case processBatch options st of
             (st', calls) \<Rightarrow>
               Option.bind (fire_timers options st')
                 (\<lambda>r. Some (fst r, calls @ snd r))))"

declare fire_timers.simps [code]

text \<open>
  The scenario of the batching properties: a fresh stage receives the given submissions
  and then all timers fire; the result is the list of inner calls.
\<close>

definition batching_calls ::
  "BatchingExportOptions option \<Rightarrow> 'a list list \<Rightarrow> 'a list list option" where
  "batching_calls options batches =
     map_option snd (fire_timers options (submit_all options batches batching_init))"

text \<open>Cutting a list into consecutive pieces of \<open>n\<close> elements, the last one maybe shorter.\<close>

function chunks :: "nat \<Rightarrow> 'a list \<Rightarrow> 'a list list" where
  "chunks n xs = (if n = 0 \<or> xs = [] then [] else take n xs # chunks n (drop n xs))"
  by pat_completeness auto
termination
  by (relation "measure (\<lambda>(n, xs). length xs)") auto

declare chunks.simps [simp del]

text \<open>The options \<^verbatim>\<open>{ maxBatchSize: 35 }\<close>, every other field left to its default.\<close>

definition batch35 :: "BatchingExportOptions option" where
  "batch35 =
     Some \<lparr>interval = None, batchingInterval = None, maxBatchSize = Some 35, maxQueueSize = None\<rparr>"

text \<open>The invariant of the pausable stage: unpaused implies an empty queue.\<close>

definition pausable_inv :: "'a pausable_state \<Rightarrow> bool" where
  "pausable_inv st = (paused st \<or> pending st = [])"

section \<open>Identifier and time utilities\<close>

text \<open>
  \<^verbatim>\<open>utils/data.ts\<close> reads two sources outside the program: \<^verbatim>\<open>Math.random()\<close> and
  \<^verbatim>\<open>Date.now()\<close>.  The model passes them as a \<open>world\<close>: the sequence of values the
  successive calls return, and how many calls have been made.  \<^verbatim>\<open>Math.random()\<close>
  returns a number in \<open>[0, 1)\<close>, modelled as a rational (the rounding of the floating
  point product \<^verbatim>\<open>Math.random() * 0xff\<close> is not modelled); \<^verbatim>\<open>Date.now()\<close> returns
  a whole number of milliseconds.
\<close>

record world =
  random_values :: "nat \<Rightarrow> rat"
  random_calls :: nat
  clock_values :: "nat \<Rightarrow> nat"
  clock_calls :: nat

definition Math_random :: "world \<Rightarrow> rat \<times> world" where
  "Math_random w = (random_values w (random_calls w), w\<lparr>random_calls := Suc (random_calls w)\<rparr>)"

definition Date_now :: "world \<Rightarrow> nat \<times> world" where
  "Date_now w = (clock_values w (clock_calls w), w\<lparr>clock_calls := Suc (clock_calls w)\<rparr>)"

subsection \<open>Numbers as text\<close>

definition digit_char :: "nat \<Rightarrow> char" where
  "digit_char d = ''0123456789abcdefghijklmnopqrstuvwxyz'' ! d"

text \<open>The digits of a natural number in a radix between 2 and 36, most significant first.\<close>

function digits :: "nat \<Rightarrow> nat \<Rightarrow> string" where
  "digits radix n =
     (if radix < 2 \<or> n < radix then [digit_char n]
      else digits radix (n div radix) @ [digit_char (n mod radix)])"
  by pat_completeness auto
termination
  by (relation "measure (\<lambda>(radix, n). n)") auto

declare digits.simps [simp del]

text \<open>
  \<^verbatim>\<open>n.toString(radix)\<close> for an integer \<open>n\<close>, and \<^verbatim>\<open>String(n)\<close>, which is radix 10
  (for integers below \<open>10\<^sup>2\<^sup>1\<close> in absolute value, where JavaScript prints all digits).
\<close>

definition Number_toString :: "nat \<Rightarrow> int \<Rightarrow> string" where
  "Number_toString radix n =
     (if n < 0 then CHR ''-'' # digits radix (nat (- n)) else digits radix (nat n))"

definition String_of_int :: "int \<Rightarrow> string" where
  "String_of_int n = Number_toString 10 n"

text \<open>
  \<^verbatim>\<open>x | 0\<close>: the number is truncated towards zero and wrapped into the signed 32-bit
  range.
\<close>

definition js_trunc :: "rat \<Rightarrow> int" where
  "js_trunc x = (if 0 \<le> x then \<lfloor>x\<rfloor> else \<lceil>x\<rceil>)"

definition ToInt32 :: "int \<Rightarrow> int" where
  "ToInt32 n = (let m = n mod 2 ^ 32 in if 2 ^ 31 \<le> m then m - 2 ^ 32 else m)"

definition bitor_zero :: "rat \<Rightarrow> int" where
  "bitor_zero x = ToInt32 (js_trunc x)"

text \<open>\<^verbatim>\<open>s.padStart(n, c)\<close> for a one-character filler.\<close>

definition padStart :: "nat \<Rightarrow> char \<Rightarrow> string \<Rightarrow> string" where
  "padStart n c s = replicate (n - length s) c @ s"

subsection \<open>id, now, millitime\<close>

text \<open>
  \<^verbatim>\<open>id(length)\<close>: the loop appends, \<open>length\<close> times,
  \<^verbatim>\<open>((Math.random() * 0xff) | 0).toString(16).padStart(2, '0')\<close>.  The name \<open>id\<close> is
  taken in HOL.
\<close>

fun id_js :: "nat \<Rightarrow> world \<Rightarrow> string \<times> world" where
  "id_js 0 w = ([], w)"
| "id_js (Suc n) w =
     (case Math_random w of
        (r, w1) \<Rightarrow>
          (case id_js n w1 of
             (rest, w2) \<Rightarrow>
               (padStart 2 (CHR ''0'') (Number_toString 16 (bitor_zero (r * 255))) @ rest, w2)))"

definition millitime :: "int \<Rightarrow> string" where
  "millitime time = String_of_int time @ ''000000''"

definition now :: "world \<Rightarrow> string \<times> world" where
  "now w = (case Date_now w of (t, w') \<Rightarrow> (millitime (int t), w'))"

section \<open>Telemetry record model\<close>

text \<open>
  The shapes of \<^verbatim>\<open>protocol.ts\<close> and \<^verbatim>\<open>configure.ts\<close> that the engine and the payload
  shaper read or write.  An optional property is an \<open>option\<close>; \<open>None\<close> is an absent
  (\<^verbatim>\<open>undefined\<close>) property.  Where two interfaces use the same property name the
  later record carries a prefix.  A value typed \<^verbatim>\<open>string | number\<close> is a \<open>numval\<close>;
  numbers are integers in the model.
\<close>

datatype numval = Num int | NumStr string

datatype AnyValue =
  AnyValue
    (stringValue: "string option")
    (boolValue: "bool option")
    (intValue: "numval option")
    (doubleValue: "numval option")
    (arrayValue: "AnyValue list option")
    (kvlistValue: "(string \<times> AnyValue) list option")
    (bytesValue: "string option")

text \<open>\<^verbatim>\<open>KeyValue\<close> is \<^verbatim>\<open>{ key, value }\<close>.\<close>

type_synonym KeyValue = "string \<times> AnyValue"

text \<open>The object literal \<^verbatim>\<open>{ stringValue: s }\<close>.\<close>

definition string_value :: "string \<Rightarrow> AnyValue" where
  "string_value s = AnyValue (Some s) None None None None None None"

datatype InstrumentationScope =
  ScopeName string
| ScopeObject (scope_name: string) (scope_version: "string option")
    (scope_attributes: "KeyValue list option")

record SpanStatus =
  message :: string
  code :: int

record SpanEvent =
  ev_timeUnixNano :: string
  ev_name :: string
  ev_attributes :: "KeyValue list option"

text \<open>
  \<^verbatim>\<open>Span\<close> with the properties \<^verbatim>\<open>makeSpan\<close> sets; \<^verbatim>\<open>traceState\<close>, \<^verbatim>\<open>links\<close> and
  the dropped-item counters are never read or written by the engine and are left out.
  \<^verbatim>\<open>sample\<close> is a boolean on every span the engine creates.
\<close>

record Span =
  traceId :: string
  spanId :: string
  parentSpanId :: "string option"
  name :: string
  kind :: "int option"
  startTimeUnixNano :: "string option"
  endTimeUnixNano :: "string option"
  attributes :: "KeyValue list"
  events :: "SpanEvent list"
  status :: "SpanStatus option"
  sample :: bool

text \<open>\<^verbatim>\<open>Partial<Span>\<close>: the same properties, each one optional.\<close>

record SpanPartial =
  d_traceId :: "string option"
  d_spanId :: "string option"
  d_parentSpanId :: "string option"
  d_name :: "string option"
  d_kind :: "int option"
  d_startTimeUnixNano :: "string option"
  d_endTimeUnixNano :: "string option"
  d_attributes :: "KeyValue list option"
  d_events :: "SpanEvent list option"
  d_status :: "SpanStatus option"
  d_sample :: "bool option"

record LogRecord =
  timeUnixNano :: string
  observedTimeUnixNano :: "string option"
  severityNumber :: "int option"
  severityText :: "string option"
  body :: "AnyValue option"
  log_attributes :: "KeyValue list option"
  droppedAttributesCount :: "int option"
  flags :: "int option"
  log_traceId :: "string option"
  log_spanId :: "string option"

text \<open>\<^verbatim>\<open>Partial<LogRecord>\<close>.\<close>

record LogRecordPartial =
  r_timeUnixNano :: "string option"
  r_observedTimeUnixNano :: "string option"
  r_severityNumber :: "int option"
  r_severityText :: "string option"
  r_body :: "AnyValue option"
  r_attributes :: "KeyValue list option"
  r_droppedAttributesCount :: "int option"
  r_flags :: "int option"
  r_traceId :: "string option"
  r_spanId :: "string option"

text \<open>
  \<^verbatim>\<open>NumberDataPoint\<close> and \<^verbatim>\<open>Metric\<close>.  Of \<^verbatim>\<open>metric.data\<close> only \<^verbatim>\<open>gauge\<close> is read;
  a metric of another kind has \<open>gauge = None\<close>.
\<close>

record NumberDataPoint =
  dp_timeUnixNano :: string
  asDouble :: "numval option"
  asInt :: "numval option"

record Metric =
  metric_name :: string
  unit :: "string option"
  gauge :: "NumberDataPoint list option"

text \<open>
  \<^verbatim>\<open>ExportItem\<close>.  \<^verbatim>\<open>context\<close> has TypeScript type \<^verbatim>\<open>any\<close> and is only passed
  along; its values are left abstract.
\<close>

typedecl js_any

record ExportItem =
  item_scope :: InstrumentationScope
  item_context :: "js_any option"
  item_span :: "Span option"
  item_log :: "LogRecord option"
  item_metric :: "Metric option"

text \<open>
  An \<^verbatim>\<open>Error\<close> object, as far as the program reads it: \<^verbatim>\<open>name\<close>, \<^verbatim>\<open>message\<close> and
  the optional \<^verbatim>\<open>stack\<close>.
\<close>

datatype jserror = JsError (err_name: string) (err_message: string) (err_stack: "string option")

text \<open>
  \<^verbatim>\<open>ExportFunction\<close>: called with a list of items.  The model of one call is its outcome
  for the caller: \<open>None\<close> when the call returns (or its promise resolves), \<open>Some e\<close> when
  it throws \<open>e\<close> (or its promise rejects with \<open>e\<close>).
\<close>

type_synonym ExportFunction = "ExportItem list \<Rightarrow> jserror option"

section \<open>Trace/span engine\<close>

subsection \<open>Parent references and makeParentObj\<close>

text \<open>
  \<^verbatim>\<open>ParentSpan = ParentSpanObject | string | null | undefined\<close>.  TypeScript declares
  \<^verbatim>\<open>traceId\<close> and \<^verbatim>\<open>spanId\<close> of a \<^verbatim>\<open>ParentSpanObject\<close> as required strings, but
  \<^verbatim>\<open>makeParentObj\<close> reads whatever object arrives at run time (a running span, or the
  \<^verbatim>\<open>record\<close> argument that \<^verbatim>\<open>tracer(...).log\<close> passes in this position), so the
  properties are optional in the model.
\<close>

datatype ParentSpan =
  ParentString string
| ParentObject (po_traceId: "string option") (po_spanId: "string option") (po_sample: "bool option")
| ParentAbsent

text \<open>
  \<^verbatim>\<open>s.split(sep)\<close> for a one-character separator; \<^verbatim>\<open>''.split('-')\<close> is \<^verbatim>\<open>['']\<close>.
  The result is never empty, so the second case of the inner \<open>case\<close> is never taken.
\<close>

fun split_on :: "char \<Rightarrow> string \<Rightarrow> string list" where
  "split_on sep [] = [[]]"
| "split_on sep (c # cs) =
     (if c = sep then [] # split_on sep cs
      else (case split_on sep cs of p # ps \<Rightarrow> (c # p) # ps | [] \<Rightarrow> [[c]]))"

text \<open>\<^verbatim>\<open>parts[i]\<close>: \<^verbatim>\<open>undefined\<close> beyond the end of the array.\<close>

definition index_opt :: "'a list \<Rightarrow> nat \<Rightarrow> 'a option" where
  "index_opt xs i = (if i < length xs then Some (xs ! i) else None)"

text \<open>\<^verbatim>\<open>parts[i] || '0'\<close>: the default replaces \<^verbatim>\<open>undefined\<close> and the empty string.\<close>

definition or_zero :: "string option \<Rightarrow> string" where
  "or_zero p = (case p of None \<Rightarrow> ''0'' | Some s \<Rightarrow> (if s = [] then ''0'' else s))"

text \<open>
  \<^verbatim>\<open>parseInt(s, 16)\<close>: leading white space is skipped, then an optional sign, then an
  optional \<^verbatim>\<open>0x\<close> or \<^verbatim>\<open>0X\<close>, then the longest run of hexadecimal digits; no digit
  gives \<^verbatim>\<open>NaN\<close>, which is \<open>None\<close> here.  The result is the mathematical value (JavaScript
  rounds values of more than 53 bits to the nearest double).  Of the white space
  characters JavaScript skips, the model knows the six ASCII ones; a text that starts
  with another Unicode space is outside the model.
\<close>

definition is_space :: "char \<Rightarrow> bool" where
  "is_space c = (c \<in> set [CHR '' '', CHR 0x09, CHR 0x0A, CHR 0x0B, CHR 0x0C, CHR 0x0D])"

definition hex_value :: "char \<Rightarrow> nat option" where
  "hex_value c =
     (let k = of_char c :: nat in
      if 48 \<le> k \<and> k \<le> 57 then Some (k - 48)
      else if 97 \<le> k \<and> k \<le> 102 then Some (k - 87)
      else if 65 \<le> k \<and> k \<le> 70 then Some (k - 55)
      else None)"

text \<open>The value of the longest run of hexadecimal digits, with the number of digits read.\<close>

fun hex_prefix :: "nat \<Rightarrow> nat \<Rightarrow> string \<Rightarrow> nat \<times> nat" where
  "hex_prefix acc cnt [] = (acc, cnt)"
| "hex_prefix acc cnt (c # cs) =
     (case hex_value c of
        None \<Rightarrow> (acc, cnt)
      | Some d \<Rightarrow> hex_prefix (16 * acc + d) (Suc cnt) cs)"

definition strip_0x :: "string \<Rightarrow> string" where
  "strip_0x s =
     (case s of
        c0 # c1 # cs \<Rightarrow> (if c0 = CHR ''0'' \<and> (c1 = CHR ''x'' \<or> c1 = CHR ''X'') then cs else s)
      | _ \<Rightarrow> s)"

definition parseInt16 :: "string \<Rightarrow> int option" where
  "parseInt16 s =
     (let t = dropWhile is_space s;
          neg = (t \<noteq> [] \<and> hd t = CHR ''-'');
          u = (if t \<noteq> [] \<and> (hd t = CHR ''-'' \<or> hd t = CHR ''+'') then tl t else t)
      in case hex_prefix 0 0 (strip_0x u) of
           (v, cnt) \<Rightarrow> if cnt = 0 then None else Some (if neg then - int v else int v))"

text \<open>
  \<^verbatim>\<open>!!(flags & 1)\<close>.  \<^verbatim>\<open>NaN & 1\<close> is 0.  A number below \<open>2\<^sup>5\<^sup>3\<close> in absolute value
  is exact and \<^verbatim>\<open>& 1\<close> is its parity; a larger one has been rounded to a double, which
  is an even integer.
\<close>

definition flag_bit0 :: "int option \<Rightarrow> bool" where
  "flag_bit0 flgs = (case flgs of None \<Rightarrow> False | Some n \<Rightarrow> \<bar>n\<bar> < 2 ^ 53 \<and> n mod 2 = 1)"

text \<open>The object \<^verbatim>\<open>makeParentObj\<close> returns; the function returns \<^verbatim>\<open>undefined\<close> for an
  absent parent.\<close>

record ParentObj =
  version :: "int option"
  pv_traceId :: "string option"
  pv_spanId :: "string option"
  pv_sample :: bool

definition makeParentObj :: "ParentSpan \<Rightarrow> ParentObj option" where
  "makeParentObj sp =
     (case sp of
        ParentString str \<Rightarrow>
          (let parts = split_on (CHR ''-'') str;
               flgs = parseInt16 (or_zero (index_opt parts 3))
           in Some \<lparr>version = parseInt16 (or_zero (index_opt parts 0)),
                    pv_traceId = index_opt parts 1,
                    pv_spanId = index_opt parts 2,
                    pv_sample = flag_bit0 flgs\<rparr>)
      | ParentObject t s smp \<Rightarrow>
          Some \<lparr>version = Some 0, pv_traceId = t, pv_spanId = s,
                 pv_sample = (case smp of None \<Rightarrow> False | Some b \<Rightarrow> b)\<rparr>
      | ParentAbsent \<Rightarrow> None)"

subsection \<open>makeSpan\<close>

text \<open>\<^verbatim>\<open>{ ...base, ...details }\<close>: a property present in \<^verbatim>\<open>details\<close> replaces the base one.\<close>

definition overlay_span :: "Span \<Rightarrow> SpanPartial option \<Rightarrow> Span" where
  "overlay_span base details =
     (case details of
        None \<Rightarrow> base
      | Some d \<Rightarrow>
          \<lparr>traceId = (case d_traceId d of Some v \<Rightarrow> v | None \<Rightarrow> traceId base),
           spanId = (case d_spanId d of Some v \<Rightarrow> v | None \<Rightarrow> spanId base),
           parentSpanId = (case d_parentSpanId d of Some v \<Rightarrow> Some v | None \<Rightarrow> parentSpanId base),
           name = (case d_name d of Some v \<Rightarrow> v | None \<Rightarrow> name base),
           kind = (case d_kind d of Some v \<Rightarrow> Some v | None \<Rightarrow> kind base),
           startTimeUnixNano =
             (case d_startTimeUnixNano d of Some v \<Rightarrow> Some v | None \<Rightarrow> startTimeUnixNano base),
           endTimeUnixNano =
             (case d_endTimeUnixNano d of Some v \<Rightarrow> Some v | None \<Rightarrow> endTimeUnixNano base),
           attributes = (case d_attributes d of Some v \<Rightarrow> v | None \<Rightarrow> attributes base),
           events = (case d_events d of Some v \<Rightarrow> v | None \<Rightarrow> events base),
           status = (case d_status d of Some v \<Rightarrow> Some v | None \<Rightarrow> status base),
           sample = (case d_sample d of Some v \<Rightarrow> v | None \<Rightarrow> sample base)\<rparr>)"

text \<open>
  \<^verbatim>\<open>makeSpan(parent, details?)\<close>.  The object literal is evaluated top down: \<^verbatim>\<open>now()\<close>
  first, then \<^verbatim>\<open>parentObj?.traceId ?? id(16)\<close> (which calls \<^verbatim>\<open>id\<close> only when the
  parent gives no trace id), then \<^verbatim>\<open>id(8)\<close>.
\<close>

definition makeSpan :: "ParentSpan \<Rightarrow> SpanPartial option \<Rightarrow> world \<Rightarrow> Span \<times> world" where
  "makeSpan parent details w =
     (let parentObj = makeParentObj parent in
      case now w of
        (timestamp, w1) \<Rightarrow>
          (case (case Option.bind parentObj pv_traceId of
                   Some t \<Rightarrow> (t, w1)
                 | None \<Rightarrow> id_js 16 w1) of
             (tid, w2) \<Rightarrow>
               (case id_js 8 w2 of
                  (sid, w3) \<Rightarrow>
                    (overlay_span
                       \<lparr>traceId = tid,
                        spanId = sid,
                        parentSpanId = Option.bind parentObj pv_spanId,
                        name = [],
                        kind = Some 1,
                        startTimeUnixNano = Some timestamp,
                        endTimeUnixNano = Some timestamp,
                        attributes = [],
                        events = [],
                        status = Some \<lparr>message = ''OK'', code = 1\<rparr>,
                        sample = (case parentObj of None \<Rightarrow> True | Some po \<Rightarrow> pv_sample po)\<rparr>
                       details,
                     w3))))"

subsection \<open>span, log, measurement, error\<close>

text \<open>
  Each of these builds one item and ends with \<^verbatim>\<open>await exporter(item)\<close>.  The model
  returns the outcome of that call (\<open>Some e\<close> when it fails with \<open>e\<close>), the list of calls
  made to the exporter, and the world.  \<open>span\<close> and \<open>log\<close> are taken in HOL.
\<close>

type_synonym export_effect = "(jserror option \<times> ExportItem list list) \<times> world"

definition span_js ::
  "ExportFunction \<Rightarrow> InstrumentationScope \<Rightarrow> ParentSpan \<Rightarrow> SpanPartial option \<Rightarrow> world
     \<Rightarrow> export_effect" where
  "span_js exporter scope parent details w =
     (case makeSpan parent details w of
        (s, w') \<Rightarrow>
          (let item = \<lparr>item_scope = scope, item_context = None, item_span = Some s,
                       item_log = None, item_metric = None\<rparr>
           in ((exporter [item], [[item]]), w')))"

definition overlay_log :: "LogRecord \<Rightarrow> LogRecordPartial option \<Rightarrow> LogRecord" where
  "overlay_log base rec =
     (case rec of
        None \<Rightarrow> base
      | Some r \<Rightarrow>
          \<lparr>timeUnixNano = (case r_timeUnixNano r of Some v \<Rightarrow> v | None \<Rightarrow> timeUnixNano base),
           observedTimeUnixNano =
             (case r_observedTimeUnixNano r of Some v \<Rightarrow> Some v | None \<Rightarrow> observedTimeUnixNano base),
           severityNumber =
             (case r_severityNumber r of Some v \<Rightarrow> Some v | None \<Rightarrow> severityNumber base),
           severityText = (case r_severityText r of Some v \<Rightarrow> Some v | None \<Rightarrow> severityText base),
           body = (case r_body r of Some v \<Rightarrow> Some v | None \<Rightarrow> body base),
           log_attributes =
             (case r_attributes r of Some v \<Rightarrow> Some v | None \<Rightarrow> log_attributes base),
           droppedAttributesCount =
             (case r_droppedAttributesCount r of Some v \<Rightarrow> Some v
              | None \<Rightarrow> droppedAttributesCount base),
           flags = (case r_flags r of Some v \<Rightarrow> Some v | None \<Rightarrow> flags base),
           log_traceId = (case r_traceId r of Some v \<Rightarrow> Some v | None \<Rightarrow> log_traceId base),
           log_spanId = (case r_spanId r of Some v \<Rightarrow> Some v | None \<Rightarrow> log_spanId base)\<rparr>)"

text \<open>\<^verbatim>\<open>log(exporter, scope, severity, message, parent, log?)\<close>.\<close>

definition log_js ::
  "ExportFunction \<Rightarrow> InstrumentationScope \<Rightarrow> int \<Rightarrow> string \<Rightarrow> ParentSpan
     \<Rightarrow> LogRecordPartial option \<Rightarrow> world \<Rightarrow> export_effect" where
  "log_js exporter scope severity msg parent rec w =
     (let parentObj = makeParentObj parent in
      case now w of
        (t, w') \<Rightarrow>
          (let item =
                 \<lparr>item_scope = scope, item_context = None, item_span = None,
                  item_log = Some (overlay_log
                     \<lparr>timeUnixNano = t,
                      observedTimeUnixNano = None,
                      severityNumber = Some severity,
                      severityText = None,
                      body = Some (string_value msg),
                      log_attributes = None,
                      droppedAttributesCount = None,
                      flags = None,
                      log_traceId = Option.bind parentObj pv_traceId,
                      log_spanId = Option.bind parentObj pv_spanId\<rparr> rec),
                  item_metric = None\<rparr>
           in ((exporter [item], [[item]]), w')))"

text \<open>\<^verbatim>\<open>measurement(exporter, scope, name, unit, value, context?)\<close>.\<close>

definition measurement ::
  "ExportFunction \<Rightarrow> InstrumentationScope \<Rightarrow> string \<Rightarrow> string \<Rightarrow> int \<Rightarrow> js_any option
     \<Rightarrow> world \<Rightarrow> export_effect" where
  "measurement exporter scope nm un val ctx w =
     (case now w of
        (t, w') \<Rightarrow>
          (let item =
                 \<lparr>item_scope = scope, item_context = ctx, item_span = None, item_log = None,
                  item_metric = Some
                    \<lparr>metric_name = nm, unit = Some un,
                     gauge = Some [\<lparr>dp_timeUnixNano = t, asDouble = Some (Num val), asInt = None\<rparr>]\<rparr>\<rparr>
           in ((exporter [item], [[item]]), w')))"

text \<open>
  \<^verbatim>\<open>String(error)\<close> for an \<^verbatim>\<open>Error\<close> object (\<^verbatim>\<open>Error.prototype.toString\<close>), and
  \<^verbatim>\<open>errorAttributes(error)\<close>.
\<close>

definition Error_toString :: "jserror \<Rightarrow> string" where
  "Error_toString e =
     (if err_name e = [] then err_message e
      else if err_message e = [] then err_name e
      else err_name e @ '': '' @ err_message e)"

definition errorAttributes :: "jserror \<Rightarrow> KeyValue list" where
  "errorAttributes e =
     [(''kind'', string_value ''exception''),
      (''message'', string_value (Error_toString e)),
      (''type'', string_value (err_name e)),
      (''stacktrace'',
         string_value (case err_stack e of Some st \<Rightarrow> st | None \<Rightarrow> err_message e))]"

text \<open>The record \<^verbatim>\<open>{ attributes: attrs }\<close> as a \<^verbatim>\<open>Partial<LogRecord>\<close>.\<close>

definition only_attributes :: "KeyValue list \<Rightarrow> LogRecordPartial" where
  "only_attributes attrs =
     \<lparr>r_timeUnixNano = None, r_observedTimeUnixNano = None, r_severityNumber = None,
      r_severityText = None, r_body = None, r_attributes = Some attrs,
      r_droppedAttributesCount = None, r_flags = None, r_traceId = None, r_spanId = None\<rparr>"

text \<open>\<^verbatim>\<open>error(exporter, scope, parent, error)\<close>; \<^verbatim>\<open>String(undefined)\<close> is \<^verbatim>\<open>'undefined'\<close>.\<close>

definition error_js ::
  "ExportFunction \<Rightarrow> InstrumentationScope \<Rightarrow> ParentSpan \<Rightarrow> jserror \<Rightarrow> world \<Rightarrow> export_effect" where
  "error_js exporter scope parent e w =
     log_js exporter scope 20 (case err_stack e of Some st \<Rightarrow> st | None \<Rightarrow> ''undefined'')
       parent (Some (only_attributes (errorAttributes e))) w"

subsection \<open>tracer\<close>

text \<open>
  \<^verbatim>\<open>tracer(exporter, parent?)\<close> returns an object of five closures; each closure is a
  definition here.  An object passed where a \<^verbatim>\<open>ParentSpan\<close> is expected is read by
  \<^verbatim>\<open>makeParentObj\<close> through its \<^verbatim>\<open>traceId\<close>, \<^verbatim>\<open>spanId\<close> and \<^verbatim>\<open>sample\<close>
  properties: \<open>record_as_parent\<close> is a \<^verbatim>\<open>Partial<LogRecord>\<close> (which has no
  \<^verbatim>\<open>sample\<close>) seen that way, \<open>span_as_parent\<close> a span.
\<close>

definition record_as_parent :: "LogRecordPartial option \<Rightarrow> ParentSpan" where
  "record_as_parent rec =
     (case rec of None \<Rightarrow> ParentAbsent | Some r \<Rightarrow> ParentObject (r_traceId r) (r_spanId r) None)"

definition span_as_parent :: "Span \<Rightarrow> ParentSpan" where
  "span_as_parent s = ParentObject (Some (traceId s)) (Some (spanId s)) (Some (sample s))"

text \<open>\<^verbatim>\<open>error: (scope, ex) => error(exporter, scope, parent, ex)\<close>\<close>

definition tracer_error ::
  "ExportFunction \<Rightarrow> ParentSpan \<Rightarrow> InstrumentationScope \<Rightarrow> jserror \<Rightarrow> world \<Rightarrow> export_effect" where
  "tracer_error exporter parent scope ex w = error_js exporter scope parent ex w"

text \<open>
  \<^verbatim>\<open>log: (scope, severity, message, record?) => log(exporter, scope, severity, message, record)\<close>:
  the call has five arguments, so \<^verbatim>\<open>record\<close> arrives as the parameter \<^verbatim>\<open>parent\<close> of
  \<^verbatim>\<open>log\<close>, and the parameter \<^verbatim>\<open>log\<close> is \<^verbatim>\<open>undefined\<close>.
\<close>

definition tracer_log ::
  "ExportFunction \<Rightarrow> ParentSpan \<Rightarrow> InstrumentationScope \<Rightarrow> int \<Rightarrow> string
     \<Rightarrow> LogRecordPartial option \<Rightarrow> world \<Rightarrow> export_effect" where
  "tracer_log exporter parent scope severity msg rec w =
     log_js exporter scope severity msg (record_as_parent rec) None w"

text \<open>\<^verbatim>\<open>measurement: (...) => measurement(exporter, scope, name, unit, value, context)\<close>\<close>

definition tracer_measurement ::
  "ExportFunction \<Rightarrow> ParentSpan \<Rightarrow> InstrumentationScope \<Rightarrow> string \<Rightarrow> string \<Rightarrow> int
     \<Rightarrow> js_any option \<Rightarrow> world \<Rightarrow> export_effect" where
  "tracer_measurement exporter parent scope nm un val ctx w =
     measurement exporter scope nm un val ctx w"

text \<open>\<^verbatim>\<open>span: (scope, details?) => span(exporter, scope, parent, details)\<close>\<close>

definition tracer_span ::
  "ExportFunction \<Rightarrow> ParentSpan \<Rightarrow> InstrumentationScope \<Rightarrow> SpanPartial option \<Rightarrow> world
     \<Rightarrow> export_effect" where
  "tracer_span exporter parent scope details w = span_js exporter scope parent details w"

subsection \<open>runSpan\<close>

text \<open>
  The running span is the span of \<^verbatim>\<open>makeSpan(parent)\<close> with methods added.
  \<^verbatim>\<open>cancel\<close>, \<^verbatim>\<open>traceparent\<close> and \<^verbatim>\<open>mark\<close> read and write the span's own properties.
  \<^verbatim>\<open>Number(b).toString(16)\<close> of a boolean is the hexadecimal text of 1 or 0.
\<close>

definition cancel :: "Span \<Rightarrow> Span" where
  "cancel newSpan = newSpan\<lparr>sample := False\<rparr>"

definition traceparent :: "Span \<Rightarrow> string" where
  "traceparent newSpan =
     ''00-'' @ traceId newSpan @ ''-'' @ spanId newSpan @ ''-''
       @ Number_toString 16 (if sample newSpan then 1 else 0)"

definition mark :: "string \<Rightarrow> KeyValue list option \<Rightarrow> Span \<Rightarrow> world \<Rightarrow> Span \<times> world" where
  "mark nm attrs newSpan w =
     (case now w of
        (t, w') \<Rightarrow>
          (newSpan\<lparr>events := events newSpan
              @ [\<lparr>ev_timeUnixNano = t, ev_name = nm, ev_attributes = attrs\<rparr>]\<rparr>, w'))"

text \<open>
  The body \<^verbatim>\<open>fn\<close> receives the running span and may do anything with it before it
  returns or throws.  The model of one execution of the body is what it does to the span,
  as a sequence of operations in the order they happen (method calls \<^verbatim>\<open>cancel()\<close> and
  \<^verbatim>\<open>mark(...)\<close>, assignments to properties, \<^verbatim>\<open>attributes.push(...)\<close>), and how it
  ends: \<open>Inr v\<close> for a returned value, \<open>Inl e\<close> for a thrown error.  What the body sends
  to the exporter itself (through \<^verbatim>\<open>log\<close>, \<^verbatim>\<open>span\<close>, nested \<^verbatim>\<open>run\<close>, or directly)
  is not part of \<^verbatim>\<open>runSpan\<close>'s own export and is not recorded.
\<close>

datatype span_op =
  Cancel
| Mark string "KeyValue list option"
| Assign SpanPartial
| PushAttribute KeyValue

record 'a body_run =
  ops :: "span_op list"
  outcome :: "jserror + 'a"

fun exec_op :: "Span \<times> world \<Rightarrow> span_op \<Rightarrow> Span \<times> world" where
  "exec_op (s, w) Cancel = (cancel s, w)"
| "exec_op (s, w) (Mark nm attrs) = mark nm attrs s w"
| "exec_op (s, w) (Assign d) = (overlay_span s (Some d), w)"
| "exec_op (s, w) (PushAttribute kv) = (s\<lparr>attributes := attributes s @ [kv]\<rparr>, w)"

text \<open>
  The result of \<^verbatim>\<open>runSpan\<close>: what the returned promise settles to (\<open>Inr\<close> a value,
  \<open>Inl\<close> a rejection), the span as it is at the end, the calls the \<^verbatim>\<open>finally\<close> block
  made to the exporter, the failure of that call if it failed, and the world.
\<close>

record 'a run_result =
  result :: "jserror + 'a"
  final_span :: Span
  exported :: "ExportItem list list"
  export_error :: "jserror option"
  final_world :: world

text \<open>
  \<^verbatim>\<open>runSpan(exporter, scope, parent, fn)\<close>; \<^verbatim>\<open>exporter\<close> may be \<^verbatim>\<open>null\<close>.  In the
  \<^verbatim>\<open>catch\<close> block the status is set and \<^verbatim>\<open>mark('error', errorAttributes(ex))\<close> is
  called before the error is thrown again; the \<^verbatim>\<open>finally\<close> block then stamps the end
  time and awaits the exporter when there is one and \<^verbatim>\<open>newSpan.sample\<close> is true.  An
  error thrown inside \<^verbatim>\<open>finally\<close> replaces the pending return value or error.
  What the body throws is taken to be an \<^verbatim>\<open>Error\<close> object.
\<close>

definition runSpan ::
  "ExportFunction option \<Rightarrow> InstrumentationScope \<Rightarrow> ParentSpan \<Rightarrow> (Span \<Rightarrow> 'a body_run)
     \<Rightarrow> world \<Rightarrow> 'a run_result" where
  "runSpan exporter scope parent fn w =
     (case makeSpan parent None w of
        (newSpan, w1) \<Rightarrow>
          (let run = fn newSpan in
           case foldl exec_op (newSpan, w1) (ops run) of
             (s2, w2) \<Rightarrow>
               (case (case outcome run of
                        Inr v \<Rightarrow> (s2, w2)
                      | Inl ex \<Rightarrow>
                          mark ''error'' (Some (errorAttributes ex))
                            (s2\<lparr>status := Some \<lparr>message = ''ERROR'', code = 2\<rparr>\<rparr>) w2) of
                  (s3, w3) \<Rightarrow>
                    (case now w3 of
                       (t_end, w4) \<Rightarrow>
                         (let s4 = s3\<lparr>endTimeUnixNano := Some t_end\<rparr>;
                              item = \<lparr>item_scope = scope, item_context = None,
                                      item_span = Some s4, item_log = None, item_metric = None\<rparr>;
                              sent = (case exporter of
                                        None \<Rightarrow> (None, [])
                                      | Some ex \<Rightarrow>
                                          if sample s4 then (ex [item], [[item]]) else (None, []))
                          in \<lparr>result = (case fst sent of None \<Rightarrow> outcome run | Some e \<Rightarrow> Inl e),
                              final_span = s4,
                              exported = snd sent,
                              export_error = fst sent,
                              final_world = w4\<rparr>)))))"

text \<open>\<^verbatim>\<open>run: (scope, fn) => runSpan(exporter, scope, parent, fn)\<close>\<close>

definition tracer_run ::
  "ExportFunction \<Rightarrow> ParentSpan \<Rightarrow> InstrumentationScope \<Rightarrow> (Span \<Rightarrow> 'a body_run) \<Rightarrow> world
     \<Rightarrow> 'a run_result" where
  "tracer_run exporter parent scope fn w = runSpan (Some exporter) scope parent fn w"

text \<open>
  ``\<^verbatim>\<open>cancel()\<close> was called during the body and the sample flag was not set back to true
  afterwards'': some operation is \<open>Cancel\<close> and no later one assigns \<^verbatim>\<open>sample = true\<close>.
\<close>

fun resamples :: "span_op \<Rightarrow> bool" where
  "resamples (Assign d) = (d_sample d = Some True)"
| "resamples _ = False"

fun cancel_stands :: "span_op list \<Rightarrow> bool" where
  "cancel_stands [] = False"
| "cancel_stands (Cancel # rest) = (cancel_stands rest \<or> \<not> list_ex resamples rest)"
| "cancel_stands (_ # rest) = cancel_stands rest"

text \<open>
  The span and the world at the moment the body has finished (before \<^verbatim>\<open>catch\<close> and
  \<^verbatim>\<open>finally\<close>), and the item the \<^verbatim>\<open>finally\<close> block passes to the exporter.
\<close>

definition after_body :: "ParentSpan \<Rightarrow> (Span \<Rightarrow> 'a body_run) \<Rightarrow> world \<Rightarrow> Span \<times> world" where
  "after_body parent fn w =
     foldl exec_op (makeSpan parent None w) (ops (fn (fst (makeSpan parent None w))))"

definition span_item :: "InstrumentationScope \<Rightarrow> Span \<Rightarrow> ExportItem" where
  "span_item scope s =
     \<lparr>item_scope = scope, item_context = None, item_span = Some s, item_log = None,
      item_metric = None\<rparr>"

text \<open>Concrete values used in the examples.\<close>

definition world0 :: world where
  "world0 = \<lparr>random_values = (\<lambda>i. 1 / 2), random_calls = 0,
             clock_values = (\<lambda>i. 1700000000000 + i), clock_calls = 0\<rparr>"

definition boom :: jserror where
  "boom = JsError ''TypeError'' ''boom'' None"


text \<open>
  The running span of \<^verbatim>\<open>runSpan(exporter, scope, { traceId: 'a-b', spanId: 'c0ffee',
  sample: true }, fn)\<close>: the span \<^verbatim>\<open>makeSpan\<close> makes for that parent, which is what
  the body receives.
\<close>

definition dashed_parent_span :: Span where
  "dashed_parent_span =
     fst (makeSpan (ParentObject (Some ''a-b'') (Some ''c0ffee'') (Some True)) None world0)"

definition example_span :: Span where
  "example_span =
     \<lparr>traceId = ''0af7651916cd43dd8448eb211c80319c'',
      spanId = ''b7ad6b7169203331'',
      parentSpanId = None,
      name = ''request'',
      kind = Some 1,
      startTimeUnixNano = Some ''1700000000000000000'',
      endTimeUnixNano = Some ''1700000000000000000'',
      attributes = [],
      events = [],
      status = Some \<lparr>message = ''OK'', code = 1\<rparr>,
      sample = True\<rparr>"

section \<open>Collector payload shaper\<close>

text \<open>
  \<^verbatim>\<open>collect(batch)\<close> of \<^verbatim>\<open>exporters/faro.ts\<close> and the helpers it calls.  Three
  computations are left to the host and passed as parameters, because they only fill
  fields of the output and never decide where an item goes: the conversion of the
  nanosecond text to an ISO-8601 time (\<^verbatim>\<open>BigInt\<close>, \<^verbatim>\<open>Date\<close>; it throws on text that is
  not a number or is out of range), \<^verbatim>\<open>parseStackTrace\<close> (\<^verbatim>\<open>utils/stacktrace.ts\<close>,
  regular expressions over the stack text), and \<^verbatim>\<open>Number(text)\<close>.
\<close>

typedecl ErrorStack

record host =
  isoTimestamp :: "string \<Rightarrow> jserror + string"
  parseStackTrace :: "string \<Rightarrow> ErrorStack option"
  parseNumber :: "string \<Rightarrow> int option"

record FaroInstrumentationLibrary =
  lib_name :: string
  lib_version :: string

record FaroSpans =
  fs_scope :: FaroInstrumentationLibrary
  fs_spans :: "Span list"

record FaroTraceRef =
  trace_id :: string
  span_id :: "string option"

record FaroLog =
  l_timestamp :: string
  l_message :: "string option"
  l_level :: string
  l_context :: "(string \<times> string) list"
  l_trace :: "FaroTraceRef option"

record FaroMeasurement =
  m_type :: string
  m_values :: "(string \<times> int option) list"

record FaroException =
  x_timestamp :: string
  x_type :: "string option"
  x_value :: "string option"
  x_trace :: "FaroTraceRef option"
  x_stacktrace :: "ErrorStack option"

record FaroEvent =
  e_timestamp :: string
  e_name :: string
  e_attributes :: "(string \<times> string) list"
  e_domain :: string
  e_trace :: "FaroTraceRef option"

text \<open>\<^verbatim>\<open>makeScope(scope)\<close>; \<^verbatim>\<open>scope.version || '1.0.0'\<close> also replaces the empty string.\<close>

definition makeScope :: "InstrumentationScope \<Rightarrow> FaroInstrumentationLibrary" where
  "makeScope scope =
     (case scope of
        ScopeName n \<Rightarrow> \<lparr>lib_name = n, lib_version = ''1.0.0''\<rparr>
      | ScopeObject n v a \<Rightarrow>
          \<lparr>lib_name = n,
           lib_version = (case v of None \<Rightarrow> ''1.0.0'' | Some t \<Rightarrow> if t = [] then ''1.0.0'' else t)\<rparr>)"

definition getFaroLogLevel :: "int \<Rightarrow> string" where
  "getFaroLogLevel severity =
     (if severity < 5 then ''trace''
      else if severity < 9 then ''debug''
      else if severity < 13 then ''info''
      else if severity < 17 then ''warning''
      else if severity < 21 then ''error''
      else ''fatal'')"

text \<open>\<^verbatim>\<open>strings.join(sep)\<close>.\<close>

fun join :: "string \<Rightarrow> string list \<Rightarrow> string" where
  "join sep [] = []"
| "join sep [x] = x"
| "join sep (x # y # ys) = x @ sep @ join sep (y # ys)"

text \<open>\<^verbatim>\<open>String(v)\<close> for a boolean and for a \<^verbatim>\<open>string | number\<close>.\<close>

definition String_of_bool :: "bool \<Rightarrow> string" where
  "String_of_bool b = (if b then ''true'' else ''false'')"

definition String_of_numval :: "numval \<Rightarrow> string" where
  "String_of_numval v = (case v of Num n \<Rightarrow> String_of_int n | NumStr t \<Rightarrow> t)"

text \<open>
  \<^verbatim>\<open>getStringValue(anyValue)\<close>.  An array is truthy even when empty, so the first two
  tests are tests for presence; the scalar fallback takes the first property that is
  present, in the order bool, double, bytes, int, string.
\<close>

fun getStringValue :: "AnyValue \<Rightarrow> string" where
  "getStringValue (AnyValue sv bv iv dv av kv byv) =
     (case av of
        Some xs \<Rightarrow> join '';'' (map getStringValue xs)
      | None \<Rightarrow>
          (case kv of
             Some kvs \<Rightarrow> join '';'' (map (\<lambda>p. fst p @ ''='' @ getStringValue (snd p)) kvs)
           | None \<Rightarrow>
               (case bv of
                  Some b \<Rightarrow> String_of_bool b
                | None \<Rightarrow>
                    (case dv of
                       Some d \<Rightarrow> String_of_numval d
                     | None \<Rightarrow>
                         (case byv of
                            Some t \<Rightarrow> t
                          | None \<Rightarrow>
                              (case iv of
                                 Some i \<Rightarrow> String_of_numval i
                               | None \<Rightarrow> (case sv of Some t \<Rightarrow> t | None \<Rightarrow> [])))))))"

text \<open>
  A JavaScript object used as a dictionary, with its keys in insertion order: assigning
  to a key that exists replaces the value in place, assigning to a new key appends.
  Two things an object does differently are outside the model: keys that look like
  array indices are listed first, in numeric order, and a key that names a property of
  \<^verbatim>\<open>Object.prototype\<close> (such as \<^verbatim>\<open>constructor\<close>) is found although it was never
  assigned.
\<close>

fun assign_key :: "'k \<Rightarrow> 'v \<Rightarrow> ('k \<times> 'v) list \<Rightarrow> ('k \<times> 'v) list" where
  "assign_key k v [] = [(k, v)]"
| "assign_key k v (p # ps) = (if fst p = k then (k, v) # ps else p # assign_key k v ps)"

text \<open>\<^verbatim>\<open>Object.fromEntries(entries)\<close>.\<close>

definition fromEntries :: "('k \<times> 'v) list \<Rightarrow> ('k \<times> 'v) list" where
  "fromEntries entries = foldl (\<lambda>obj e. assign_key (fst e) (snd e) obj) [] entries"

text \<open>
  The five accumulators of \<^verbatim>\<open>collect\<close>.  \<^verbatim>\<open>tracesBatch\<close> and
  \<^verbatim>\<open>measurementsBatch\<close> are dictionaries keyed by the scope name; \<^verbatim>\<open>Object.values\<close>
  returns their values in insertion order.
\<close>

record collected =
  tracesBatch :: "(string \<times> FaroSpans) list"
  logsBatch :: "FaroLog list"
  measurementsBatch :: "(string \<times> FaroMeasurement) list"
  exceptionBatch :: "FaroException list"
  eventsBatch :: "FaroEvent list"

definition collected_empty :: collected where
  "collected_empty =
     \<lparr>tracesBatch = [], logsBatch = [], measurementsBatch = [], exceptionBatch = [],
      eventsBatch = []\<rparr>"

text \<open>
  The branch \<^verbatim>\<open>if (item.span) { ...; continue; }\<close>:
  \<^verbatim>\<open>tracesBatch[name] ??= { scope, spans: [] }\<close>, then \<^verbatim>\<open>spans.push(item.span)\<close>.
\<close>

definition add_span :: "InstrumentationScope \<Rightarrow> Span \<Rightarrow> collected \<Rightarrow> collected" where
  "add_span scope sp acc =
     (let key = lib_name (makeScope scope);
          grp = (case map_of (tracesBatch acc) key of
                   Some g \<Rightarrow> g
                 | None \<Rightarrow> \<lparr>fs_scope = makeScope scope, fs_spans = []\<rparr>)
      in acc\<lparr>tracesBatch :=
               assign_key key (grp\<lparr>fs_spans := fs_spans grp @ [sp]\<rparr>) (tracesBatch acc)\<rparr>)"

text \<open>
  The branch \<^verbatim>\<open>if (item.log) { ... }\<close>.  The result is the new accumulators and whether
  the branch ended with \<^verbatim>\<open>continue\<close>: the exception and the event case do, the plain
  log case does not.  Reading \<^verbatim>\<open>item.log.body.stringValue\<close> or calling
  \<^verbatim>\<open>getStringValue(item.log.body)\<close> throws a \<^verbatim>\<open>TypeError\<close> when the record has no
  \<^verbatim>\<open>body\<close>.
\<close>

definition no_body :: jserror where
  "no_body = JsError ''TypeError'' ''Cannot read properties of undefined'' None"

definition add_log ::
  "host \<Rightarrow> InstrumentationScope \<Rightarrow> LogRecord \<Rightarrow> collected \<Rightarrow> jserror + (collected \<times> bool)" where
  "add_log h scope lg acc =
     (let ctx = fromEntries
                  (case log_attributes lg of
                     Some attrs \<Rightarrow> map (\<lambda>attr. (fst attr, getStringValue (snd attr))) attrs
                   | None \<Rightarrow> [])
      in case isoTimestamp h (timeUnixNano lg) of
           Inl e \<Rightarrow> Inl e
         | Inr timestamp \<Rightarrow>
             (let trace = (case log_traceId lg of
                             Some t \<Rightarrow>
                               if t \<noteq> [] then Some \<lparr>trace_id = t, span_id = log_spanId lg\<rparr>
                               else None
                           | None \<Rightarrow> None)
              in if map_of ctx ''kind'' = Some ''exception'' then
                   (case body lg of
                      None \<Rightarrow> Inl no_body
                    | Some b \<Rightarrow>
                        Inr (acc\<lparr>exceptionBatch := exceptionBatch acc @
                               [\<lparr>x_timestamp = timestamp,
                                 x_type = map_of ctx ''type'',
                                 x_value = stringValue b,
                                 x_trace = trace,
                                 x_stacktrace = parseStackTrace h
                                   (case map_of ctx ''stacktrace'' of
                                      Some st \<Rightarrow> st
                                    | None \<Rightarrow> (case stringValue b of Some t \<Rightarrow> t | None \<Rightarrow> []))\<rparr>]\<rparr>,
                             True))
                 else if map_of ctx ''kind'' = Some ''event'' then
                   (case body lg of
                      None \<Rightarrow> Inl no_body
                    | Some b \<Rightarrow>
                        Inr (acc\<lparr>eventsBatch := eventsBatch acc @
                               [\<lparr>e_timestamp = timestamp,
                                 e_name = getStringValue b,
                                 e_attributes = ctx,
                                 e_domain = lib_name (makeScope scope),
                                 e_trace = trace\<rparr>]\<rparr>,
                             True))
                 else
                   (case body lg of
                      None \<Rightarrow> Inl no_body
                    | Some b \<Rightarrow>
                        Inr (acc\<lparr>logsBatch := logsBatch acc @
                               [\<lparr>l_timestamp = timestamp,
                                 l_message = stringValue b,
                                 l_level = getFaroLogLevel
                                   (case severityNumber lg of Some n \<Rightarrow> n | None \<Rightarrow> 0),
                                 l_context = ctx,
                                 l_trace = trace\<rparr>]\<rparr>,
                             False))))"

text \<open>
  \<^verbatim>\<open>Number(value.asDouble ?? value.asInt)\<close>; \<open>None\<close> is \<^verbatim>\<open>NaN\<close>.
\<close>

definition Number_of :: "host \<Rightarrow> numval option \<Rightarrow> int option" where
  "Number_of h v =
     (case v of None \<Rightarrow> None | Some (Num n) \<Rightarrow> Some n | Some (NumStr t) \<Rightarrow> parseNumber h t)"

text \<open>
  The branch \<^verbatim>\<open>if (item.metric && item.metric.data.gauge) { ... }\<close>.  The group is
  created before the first data point is looked at, so a gauge without data points
  leaves an empty group.
\<close>

definition add_metric :: "host \<Rightarrow> InstrumentationScope \<Rightarrow> Metric \<Rightarrow> collected \<Rightarrow> collected" where
  "add_metric h scope m acc =
     (case gauge m of
        None \<Rightarrow> acc
      | Some dataPoints \<Rightarrow>
          (let key = lib_name (makeScope scope);
               grp = (case map_of (measurementsBatch acc) key of
                        Some g \<Rightarrow> g
                      | None \<Rightarrow> \<lparr>m_type = lib_name (makeScope scope), m_values = []\<rparr>);
               grp' = (case dataPoints of
                         [] \<Rightarrow> grp
                       | dp # _ \<Rightarrow>
                           grp\<lparr>m_values := assign_key (metric_name m)
                                 (Number_of h (case asDouble dp of Some d \<Rightarrow> Some d | None \<Rightarrow> asInt dp))
                                 (m_values grp)\<rparr>)
           in acc\<lparr>measurementsBatch := assign_key key grp' (measurementsBatch acc)\<rparr>))"

text \<open>One round of the loop \<^verbatim>\<open>for (const item of batch)\<close>.\<close>

definition collect_item :: "host \<Rightarrow> collected \<Rightarrow> ExportItem \<Rightarrow> jserror + collected" where
  "collect_item h acc item =
     (case item_span item of
        Some sp \<Rightarrow> Inr (add_span (item_scope item) sp acc)
      | None \<Rightarrow>
          (case (case item_log item of
                   Some lg \<Rightarrow> add_log h (item_scope item) lg acc
                 | None \<Rightarrow> Inr (acc, False)) of
             Inl e \<Rightarrow> Inl e
           | Inr (acc', continued) \<Rightarrow>
               if continued then Inr acc'
               else (case item_metric item of
                       Some m \<Rightarrow> Inr (add_metric h (item_scope item) m acc')
                     | None \<Rightarrow> Inr acc')))"

fun collect_loop :: "host \<Rightarrow> collected \<Rightarrow> ExportItem list \<Rightarrow> jserror + collected" where
  "collect_loop h acc [] = Inr acc"
| "collect_loop h acc (item # batch) =
     (case collect_item h acc item of
        Inl e \<Rightarrow> Inl e
      | Inr acc' \<Rightarrow> collect_loop h acc' batch)"

text \<open>
  \<^verbatim>\<open>collect(batch)\<close>: the five arrays \<^verbatim>\<open>[traces, logs, measurements, exceptions,
  events]\<close>, or the error thrown on the way.
\<close>

record collect_result =
  traces :: "FaroSpans list"
  logs :: "FaroLog list"
  measurements :: "FaroMeasurement list"
  exceptions :: "FaroException list"
  faro_events :: "FaroEvent list"

definition collect :: "host \<Rightarrow> ExportItem list \<Rightarrow> jserror + collect_result" where
  "collect h batch =
     (case collect_loop h collected_empty batch of
        Inl e \<Rightarrow> Inl e
      | Inr acc \<Rightarrow>
          Inr \<lparr>traces = map snd (tracesBatch acc),
               logs = logsBatch acc,
               measurements = map snd (measurementsBatch acc),
               exceptions = exceptionBatch acc,
               faro_events = eventsBatch acc\<rparr>)"

text \<open>
  An item that carries a plain log record and a gauge metric at once:
  \<^verbatim>\<open>{ scope: 'web', log: { timeUnixNano: '1700000000000000000', severityNumber: 9,
  body: { stringValue: 'hi' } }, metric: { name: 'cls', unit: '%', data: { gauge:
  { dataPoints: [{ value: { asInt: 12 }, timeUnixNano: '1700000000000000000' }] } } } }\<close>.
\<close>

definition log_and_metric_item :: ExportItem where
  "log_and_metric_item =
     \<lparr>item_scope = ScopeName ''web'',
      item_context = None,
      item_span = None,
      item_log = Some
        \<lparr>timeUnixNano = ''1700000000000000000'',
         observedTimeUnixNano = None,
         severityNumber = Some 9,
         severityText = None,
         body = Some (string_value ''hi''),
         log_attributes = None,
         droppedAttributesCount = None,
         flags = None,
         log_traceId = None,
         log_spanId = None\<rparr>,
      item_metric = Some
        \<lparr>metric_name = ''cls'', unit = Some ''%'',
         gauge = Some [\<lparr>dp_timeUnixNano = ''1700000000000000000'', asDouble = None,
                        asInt = Some (Num 12)\<rparr>]\<rparr>\<rparr>"

text \<open>
  The lower-case hexadecimal digits, and the contract of \<^verbatim>\<open>Math.random()\<close>: every value
  it returns is in \<open>[0, 1)\<close>.
\<close>

definition hex_chars :: "char set" where
  "hex_chars = set ''0123456789abcdef''"

definition unit_random :: "world \<Rightarrow> bool" where
  "unit_random w = (\<forall>i. 0 \<le> random_values w i \<and> random_values w i < 1)"

chapter \<open>Properties\<close>

section \<open>Pausable stage: the queue is empty whenever the stage is unpaused\<close>

lemma pausable_init_inv: "pausable_inv (pausable_init options)"
  by (simp add: pausable_inv_def pausable_init_def)

lemma pausableExporter_inv:
  "pausable_inv st \<Longrightarrow> pausable_inv (fst (pausableExporter options evs st))"
  by (auto simp: pausable_inv_def pausableExporter_def Let_def)

lemma toggle_inv: "pausable_inv (fst (snd (toggle on st)))"
  by (simp add: pausable_inv_def toggle_def Let_def)

lemma pausable_step_inv:
  "pausable_inv (fst s) \<Longrightarrow> pausable_inv (fst (pausable_step options s a))"
proof (cases s)
  case (Pair st calls)
  assume inv: "pausable_inv (fst s)"
  show ?thesis
  proof (cases a)
    case (Submit evs)
    with Pair inv pausableExporter_inv [of st options evs] show ?thesis
      by (auto split: prod.splits)
  next
    case (Toggle on)
    with Pair toggle_inv [of on st] show ?thesis
      by (auto split: prod.splits)
  qed
qed

lemma pausable_foldl_inv:
  "pausable_inv (fst s) \<Longrightarrow> pausable_inv (fst (foldl (pausable_step options) s acts))"
  by (induction acts arbitrary: s) (simp_all add: pausable_step_inv)

text \<open>
  C10.  Invariant of the pausable stage: in every state reached from the initial one by
  any sequence of submissions and toggles, an unpaused stage has an empty pending queue.
  A submission to an unpaused stage leaves the state untouched and is one call of the
  inner exporter with exactly the submitted items.  A toggle that ends unpaused leaves
  the queue empty, and forwards the former queue contents, in order, in a single call
  (no call when the queue was already empty).
\<close>

theorem pausable_unpaused_queue_empty:
  "(\<not> paused (fst (pausable_run options acts)) \<longrightarrow> pending (fst (pausable_run options acts)) = [])
   \<and> (\<not> paused st \<longrightarrow> pausableExporter options evs st = (st, [evs]))
   \<and> (\<not> fst (toggle on st') \<longrightarrow>
        \<not> paused (fst (snd (toggle on st')))
        \<and> pending (fst (snd (toggle on st'))) = []
        \<and> snd (snd (toggle on st')) = (if pending st' = [] then [] else [pending st']))"
proof (intro conjI)
  have "pausable_inv (fst (pausable_run options acts))"
    unfolding pausable_run_def
    by (rule pausable_foldl_inv) (simp add: pausable_init_inv)
  then show "\<not> paused (fst (pausable_run options acts))
      \<longrightarrow> pending (fst (pausable_run options acts)) = []"
    by (auto simp: pausable_inv_def)
next
  show "\<not> paused st \<longrightarrow> pausableExporter options evs st = (st, [evs])"
    by (simp add: pausableExporter_def)
next
  show "\<not> fst (toggle on st') \<longrightarrow>
        \<not> paused (fst (snd (toggle on st')))
        \<and> pending (fst (snd (toggle on st'))) = []
        \<and> snd (snd (toggle on st')) = (if pending st' = [] then [] else [pending st'])"
    by (cases "pending st' = []") (simp_all add: toggle_def Let_def)
qed

theorem pausable_unpaused_queue_empty_witness:
  "\<not> paused (fst (pausable_run None [Toggle None, Submit [1, 2 :: nat], Submit [3], Toggle (Some False)]))
   \<and> pending (fst (pausable_run None [Toggle None, Submit [1, 2 :: nat], Submit [3], Toggle (Some False)])) = []
   \<and> snd (pausable_run None [Toggle None, Submit [1, 2 :: nat], Submit [3], Toggle (Some False)]) = [[1, 2, 3]]
   \<and> \<not> paused \<lparr>pending = [], paused = False\<rparr>
   \<and> pausableExporter None [4 :: nat] \<lparr>pending = [], paused = False\<rparr>
         = (\<lparr>pending = [], paused = False\<rparr>, [[4]])
   \<and> \<not> fst (toggle None \<lparr>pending = [5, 6 :: nat], paused = True\<rparr>)
   \<and> fst (snd (toggle None \<lparr>pending = [5, 6 :: nat], paused = True\<rparr>))
         = \<lparr>pending = [], paused = False\<rparr>
   \<and> snd (snd (toggle None \<lparr>pending = [5, 6 :: nat], paused = True\<rparr>)) = [[5, 6]]"
  using pausable_unpaused_queue_empty
    [of None "[Toggle None, Submit [1, 2 :: nat], Submit [3], Toggle (Some False)]"
        "\<lparr>pending = [], paused = False\<rparr>" "[4 :: nat]"
        None "\<lparr>pending = [5, 6 :: nat], paused = True\<rparr>"]
  by (simp add: pausable_run_def pausable_init_def pausableExporter_def toggle_def
      pausable_maxQueueSize_def splice0_def Let_def)

section \<open>Batching stage\<close>

lemma chunks_Nil [simp]: "chunks n [] = []"
  by (simp add: chunks.simps)

lemma chunks_step: "0 < n \<Longrightarrow> xs \<noteq> [] \<Longrightarrow> chunks n xs = take n xs # chunks n (drop n xs)"
  by (subst chunks.simps) simp

lemma chunks_concat: "0 < n \<Longrightarrow> concat (chunks n xs) = xs"
proof (induction n xs rule: chunks.induct)
  case (1 n xs)
  show ?case
  proof (cases "xs = []")
    case True
    then show ?thesis by simp
  next
    case False
    with 1 have "concat (chunks n (drop n xs)) = drop n xs" by simp
    moreover from 1(2) False have "chunks n xs = take n xs # chunks n (drop n xs)"
      by (rule chunks_step)
    ultimately show ?thesis by simp
  qed
qed

lemma chunks_length: "0 < n \<Longrightarrow> length (chunks n xs) = (length xs + n - 1) div n"
proof (induction n xs rule: chunks.induct)
  case (1 n xs)
  show ?case
  proof (cases "xs = []")
    case True
    with 1 show ?thesis by simp
  next
    case False
    with 1 have ih: "length (chunks n (drop n xs)) = (length (drop n xs) + n - 1) div n"
      by simp
    from False have pos: "0 < length xs" by simp
    from 1(2) False have "chunks n xs = take n xs # chunks n (drop n xs)"
      by (rule chunks_step)
    then have step: "length (chunks n xs) = Suc (length (chunks n (drop n xs)))"
      by simp
    show ?thesis
    proof (cases "length xs \<le> n")
      case True
      from pos have "length xs + n - 1 = (length xs - 1) + n" by arith
      moreover from pos True have "length xs - 1 < n" by arith
      then have "(length xs - 1) div n = 0" by simp
      ultimately have "(length xs + n - 1) div n = 1"
        using 1(2) by (simp only: div_add_self2)
      moreover from True have "chunks n (drop n xs) = []" by simp
      ultimately show ?thesis using step by simp
    next
      case False
      then have "length xs + n - 1 = (length (drop n xs) + n - 1) + n" by simp
      then have "(length xs + n - 1) div n = Suc ((length (drop n xs) + n - 1) div n)"
        using 1(2) by (simp only: div_add_self2)
      with ih step show ?thesis by simp
    qed
  qed
qed

lemma chunks_bound: "0 < n \<Longrightarrow> c \<in> set (chunks n xs) \<Longrightarrow> length c \<le> n \<and> c \<noteq> []"
proof (induction n xs rule: chunks.induct)
  case (1 n xs)
  show ?case
  proof (cases "xs = []")
    case True
    with 1 show ?thesis by simp
  next
    case False
    from 1(2) False have "chunks n xs = take n xs # chunks n (drop n xs)"
      by (rule chunks_step)
    with 1(3) have "c = take n xs \<or> c \<in> set (chunks n (drop n xs))"
      by simp
    then show ?thesis
    proof
      assume "c = take n xs"
      with False 1(2) show ?thesis by simp
    next
      assume "c \<in> set (chunks n (drop n xs))"
      with 1(1) [OF _ 1(2)] False 1(2) show ?thesis by simp
    qed
  qed
qed

lemma chunks_last:
  "0 < n \<Longrightarrow> xs \<noteq> [] \<Longrightarrow>
     length (last (chunks n xs)) = (if length xs mod n = 0 then n else length xs mod n)"
proof (induction n xs rule: chunks.induct)
  case (1 n xs)
  have step: "chunks n xs = take n xs # chunks n (drop n xs)"
    using 1(2,3) by (rule chunks_step)
  show ?case
  proof (cases "drop n xs = []")
    case True
    then have le: "length xs \<le> n" by simp
    from True step have "chunks n xs = [take n xs]" by simp
    moreover from le 1(3) have "(if length xs mod n = 0 then n else length xs mod n) = length xs"
      by (cases "length xs = n") auto
    ultimately show ?thesis using le by simp
  next
    case False
    then have gt: "n < length xs" by simp
    from False 1 have ih: "length (last (chunks n (drop n xs))) =
        (if length (drop n xs) mod n = 0 then n else length (drop n xs) mod n)"
      by simp
    from gt have "length xs = length (drop n xs) + n" by simp
    then have "length xs mod n = length (drop n xs) mod n"
      by (metis mod_add_self2)
    moreover from 1(2) False have "chunks n (drop n xs) = take n (drop n xs) # chunks n (drop n (drop n xs))"
      by (rule chunks_step)
    then have "chunks n (drop n xs) \<noteq> []"
      by simp
    ultimately show ?thesis using ih step by simp
  qed
qed

lemma fire_timers_idle:
  "timer st = None \<Longrightarrow> fire_timers options st = Some (st, [])"
  by (subst fire_timers.simps) simp

lemma fire_timers_armed:
  "opt_or options maxBatchSize 35 = int n \<Longrightarrow> 0 < n \<Longrightarrow> timer st \<noteq> None \<Longrightarrow>
     fire_timers options st = Some (\<lparr>pending = [], timer = None\<rparr>, chunks n (pending st))"
proof (induction "length (pending st)" arbitrary: st rule: less_induct)
  case less
  from less.prems(3) obtain d where d: "timer st = Some d" by auto
  let ?rest = "drop n (pending st)"
  let ?st' = "\<lparr>pending = ?rest,
      timer = (if ?rest \<noteq> []
               then Some (opt_or options batchingInterval (opt_or options interval 1000))
               else None)\<rparr>"
  have pb: "processBatch options st =
      (?st', if take n (pending st) \<noteq> [] then [take n (pending st)] else [])"
    by (simp add: processBatch_def splice0_def less.prems(1))
  have unf: "fire_timers options st =
      Option.bind (fire_timers options ?st')
        (\<lambda>r. Some (fst r, (if take n (pending st) \<noteq> [] then [take n (pending st)] else []) @ snd r))"
    by (subst fire_timers.simps) (simp add: d pb)
  show ?case
  proof (cases "pending st = []")
    case True
    then have "fire_timers options ?st' = Some (?st', [])"
      by (intro fire_timers_idle) simp
    with True show ?thesis
      by (simp only: unf) simp
  next
    case False
    with less.prems(2) have tk: "take n (pending st) \<noteq> []" by simp
    from less.prems(2) False have ch: "chunks n (pending st) = take n (pending st) # chunks n ?rest"
      by (rule chunks_step)
    show ?thesis
    proof (cases "?rest = []")
      case True
      then have "fire_timers options ?st' = Some (?st', [])"
        by (intro fire_timers_idle) simp
      with True tk show ?thesis
        by (simp only: unf ch) simp
    next
      case rest: False
      from False less.prems(2) have shorter: "length (pending ?st') < length (pending st)"
        by simp
      have armed: "timer ?st' \<noteq> None" using rest by simp
      have "fire_timers options ?st' =
          Some (\<lparr>pending = [], timer = None\<rparr>, chunks n (pending ?st'))"
        by (rule less.hyps [OF shorter less.prems(1) less.prems(2) armed])
      then have "fire_timers options ?st' =
          Some (\<lparr>pending = [], timer = None\<rparr>, chunks n ?rest)"
        by simp
      with tk show ?thesis
        by (simp only: unf ch) simp
    qed
  qed
qed

lemma batchingExporter_no_drop:
  assumes "int (length (pending st) + length evs) \<le> opt_or options maxQueueSize 100000"
  shows "pending (batchingExporter options evs st) = pending st @ evs"
    and "timer (batchingExporter options evs st) \<noteq> None"
  using assms by (simp_all add: batchingExporter_def Let_def)

lemma submit_all_no_drop:
  "int (length (pending st) + length (concat batches)) \<le> opt_or options maxQueueSize 100000 \<Longrightarrow>
     pending (submit_all options batches st) = pending st @ concat batches
     \<and> (timer (submit_all options batches st) = None \<longleftrightarrow> batches = [] \<and> timer st = None)"
proof (induction batches arbitrary: st)
  case Nil
  then show ?case by (simp add: submit_all_def)
next
  case (Cons evs batches)
  let ?st = "batchingExporter options evs st"
  from Cons.prems have le: "int (length (pending st) + length evs) \<le> opt_or options maxQueueSize 100000"
    by simp
  have p: "pending ?st = pending st @ evs" and t: "timer ?st \<noteq> None"
    using batchingExporter_no_drop [OF le] by simp_all
  from Cons.prems p have "int (length (pending ?st) + length (concat batches))
      \<le> opt_or options maxQueueSize 100000"
    by simp
  from Cons.IH [OF this] p t show ?case
    by (simp add: submit_all_def)
qed

text \<open>
  C9 (as amended).  Take a batching stage whose \<^verbatim>\<open>maxBatchSize\<close> is 35, submit \<open>N\<close>
  items in any number of calls before the first timer fires, and then let every armed
  timer fire with no further submission.  If \<open>N\<close> does not exceed \<^verbatim>\<open>maxQueueSize\<close>
  (100000 by default), the timers stop firing and the inner exporter has been called
  exactly \<open>\<lceil>N / 35\<rceil>\<close> times, each call carries at most 35 items, the calls together
  carry the submitted items in submission order, and the last call carries \<open>N mod 35\<close>
  items (35 when \<open>N\<close> is a positive multiple of 35).
\<close>

theorem batching_calls_are_chunks:
  assumes mbs: "opt_or options maxBatchSize 35 = 35"
    and fits: "int (length (concat batches)) \<le> opt_or options maxQueueSize 100000"
  shows "\<exists>calls. batching_calls options batches = Some calls
      \<and> length calls = (length (concat batches) + 34) div 35
      \<and> (\<forall>c \<in> set calls. length c \<le> 35)
      \<and> concat calls = concat batches
      \<and> (concat batches \<noteq> [] \<longrightarrow>
           length (last calls) =
             (if length (concat batches) mod 35 = 0 then 35 else length (concat batches) mod 35))"
proof -
  let ?st = "submit_all options batches batching_init"
  let ?items = "concat batches"
  from fits have "int (length (pending (batching_init :: 'a batching_state)) + length ?items)
      \<le> opt_or options maxQueueSize 100000"
    by (simp add: batching_init_def)
  from submit_all_no_drop [OF this]
  have p: "pending ?st = ?items"
    and t: "timer ?st = None \<longleftrightarrow> batches = []"
    by (simp_all add: batching_init_def)
  have calls: "batching_calls options batches = Some (chunks 35 ?items)"
  proof (cases "batches = []")
    case True
    with t have "fire_timers options ?st = Some (?st, [])"
      by (simp add: fire_timers_idle)
    with True show ?thesis by (simp add: batching_calls_def)
  next
    case False
    with t have armed: "timer ?st \<noteq> None" by simp
    from mbs have "opt_or options maxBatchSize 35 = int 35" by simp
    from fire_timers_armed [OF this _ armed] p show ?thesis
      by (simp add: batching_calls_def)
  qed
  have "length (chunks 35 ?items) = (length ?items + 34) div 35"
    using chunks_length [of 35 ?items] by simp
  moreover have "\<forall>c \<in> set (chunks 35 ?items). length c \<le> 35"
    using chunks_bound [of 35 _ ?items] by simp
  moreover have "concat (chunks 35 ?items) = ?items"
    by (simp add: chunks_concat)
  moreover have "?items \<noteq> [] \<longrightarrow> length (last (chunks 35 ?items)) =
      (if length ?items mod 35 = 0 then 35 else length ?items mod 35)"
    using chunks_last [of 35 ?items] by simp
  ultimately show ?thesis using calls by blast
qed

theorem batching_calls_are_chunks_witness:
  "opt_or batch35 maxBatchSize 35 = 35
   \<and> int (length (concat [[0 ..< 30], [30 ..< 80 :: nat]])) \<le> opt_or batch35 maxQueueSize 100000
   \<and> (\<exists>calls. batching_calls batch35 [[0 ..< 30], [30 ..< 80 :: nat]] = Some calls
        \<and> length calls = 3 \<and> concat calls = [0 ..< 80] \<and> length (last calls) = 10)"
proof -
  have h1: "opt_or batch35 maxBatchSize 35 = 35"
    by (simp add: batch35_def opt_or_def)
  have h2: "int (length (concat [[0 ..< 30], [30 ..< 80 :: nat]])) \<le> opt_or batch35 maxQueueSize 100000"
    by (simp add: batch35_def opt_or_def)
  have c: "concat [[0 ..< 30], [30 ..< 80 :: nat]] = [0 ..< 80]"
    using upt_add_eq_append [of 0 30 50] by simp
  from batching_calls_are_chunks [OF h1 h2] h1 h2 show ?thesis
    unfolding c by auto
qed

text \<open>
  Without the bound on \<open>N\<close> the statement fails: with \<^verbatim>\<open>{ maxBatchSize: 35 }\<close> and
  100001 items submitted in one call, the queue is cut down on submission and the inner
  exporter is called 29 times, not \<open>\<lceil>100001 / 35\<rceil> = 2858\<close> times.
\<close>

lemma default_trim:
  "pending (batchingExporter batch35 [0 ..< 100001] batching_init) = [99001 ..< 100001]"
  by (simp add: batchingExporter_def batching_init_def splice0_def opt_or_def batch35_def Let_def)

theorem batching_calls_overflow_counterexample:
  "map_option length (batching_calls batch35 [[0 ..< 100001]]) = Some 29
   \<and> map_option length (batching_calls batch35 [[0 ..< 100001]]) \<noteq> Some ((100001 + 34) div 35)"
proof -
  let ?st = "batchingExporter batch35 [0 ..< 100001] batching_init"
  have p: "pending ?st = [99001 ..< 100001]" by (rule default_trim)
  have t: "timer ?st \<noteq> None"
    by (simp add: batchingExporter_def batching_init_def Let_def)
  have "opt_or batch35 maxBatchSize 35 = int 35" by (simp add: batch35_def opt_or_def)
  from fire_timers_armed [OF this _ t] p
  have "batching_calls batch35 [[0 ..< 100001]] = Some (chunks 35 [99001 ..< 100001])"
    by (simp add: batching_calls_def submit_all_def)
  moreover have "length (chunks 35 [99001 ..< 100001 :: nat]) = 29"
    using chunks_length [of 35 "[99001 ..< 100001 :: nat]"] by simp
  ultimately show ?thesis by simp
qed

text \<open>
  C4.  The claim is that a stage built with no options keeps exactly the newest 100000
  items when a submission makes the queue longer than 100000.  The code compares the
  queue length with \<^verbatim>\<open>options?.maxQueueSize ?? 100000\<close> but cuts the queue down to
  \<^verbatim>\<open>options?.maxQueueSize ?? 1000\<close>: after a submission of the 100001 items
  \<open>0, \<dots>, 100000\<close> to a fresh stage only the newest 1000 items are left.
\<close>

theorem batching_default_overflow_keeps_1000:
  "pending (batchingExporter None [0 ..< 100001] batching_init) = [99001 ..< 100001]"
  by (simp add: batchingExporter_def batching_init_def splice0_def opt_or_def Let_def)

section \<open>Trace/span engine\<close>

subsection \<open>traceparent and makeParentObj\<close>

lemma digits_small: "n < radix \<Longrightarrow> digits radix n = [digit_char n]"
  by (subst digits.simps) simp

lemma digits_step:
  "2 \<le> radix \<Longrightarrow> radix \<le> n \<Longrightarrow>
     digits radix n = digits radix (n div radix) @ [digit_char (n mod radix)]"
  by (subst digits.simps) simp

lemma flag_text: "Number_toString 16 (if b then 1 else 0) = (if b then ''1'' else ''0'')"
  by (simp add: Number_toString_def digits_small digit_char_def)

text \<open>
  C2.  The claim is that the last field of \<^verbatim>\<open>traceparent()\<close> is the two hexadecimal
  digits \<open>01\<close> for a sampled span and \<open>00\<close> for an unsampled one.  The code writes
  \<^verbatim>\<open>Number(newSpan.sample).toString(16)\<close> without padding, so the field is the single
  digit \<open>1\<close> or \<open>0\<close>, for every span.
\<close>

theorem traceparent_flags_one_digit:
  "traceparent s = ''00-'' @ traceId s @ ''-'' @ spanId s @ ''-'' @ (if sample s then ''1'' else ''0'')
   \<and> traceparent s \<noteq>
       ''00-'' @ traceId s @ ''-'' @ spanId s @ ''-'' @ (if sample s then ''01'' else ''00'')"
  by (simp add: traceparent_def flag_text)

lemma split_on_nonempty: "split_on sep s \<noteq> []"
  by (induction s) (simp_all split: list.splits)

lemma split_on_no_sep: "sep \<notin> set a \<Longrightarrow> split_on sep a = [a]"
  by (induction a) auto

lemma split_on_append:
  "sep \<notin> set a \<Longrightarrow> split_on sep (a @ sep # rest) = a # split_on sep rest"
  by (induction a) auto

lemma parseInt16_flag:
  "parseInt16 ''1'' = Some 1" "parseInt16 ''0'' = Some 0" "parseInt16 ''00'' = Some 0"
  by (simp_all add: parseInt16_def is_space_def strip_0x_def hex_value_def Let_def)

lemma traceparent_parts:
  assumes "CHR ''-'' \<notin> set (traceId s)" and "CHR ''-'' \<notin> set (spanId s)"
  shows "split_on (CHR ''-'') (traceparent s)
      = [''00'', traceId s, spanId s, if sample s then ''1'' else ''0'']"
proof -
  have flag: "split_on (CHR ''-'') (if sample s then ''1'' else ''0'')
      = [if sample s then ''1'' else ''0'']"
    by (rule split_on_no_sep) simp
  have "traceparent s = ''00'' @ CHR ''-'' # (traceId s @ CHR ''-'' # (spanId s @ CHR ''-''
      # (if sample s then ''1'' else ''0'')))"
    by (simp add: traceparent_def flag_text)
  then show ?thesis
    using assms flag by (simp only: split_on_append) (simp add: split_on_append)
qed

text \<open>
  C3 (as amended).  Round trip: for every running span whose \<^verbatim>\<open>traceId\<close> and
  \<^verbatim>\<open>spanId\<close> contain no \<open>-\<close> (every hexadecimal id is such, and so is every id read
  from a traceparent string), \<^verbatim>\<open>makeParentObj\<close> applied to the text of
  \<^verbatim>\<open>traceparent()\<close> gives a parent object with the span's \<^verbatim>\<open>traceId\<close>,
  \<^verbatim>\<open>spanId\<close> and \<^verbatim>\<open>sample\<close>, whether the span is sampled or not.
\<close>

theorem traceparent_roundtrip:
  assumes "CHR ''-'' \<notin> set (traceId s)" and "CHR ''-'' \<notin> set (spanId s)"
  shows "makeParentObj (ParentString (traceparent s))
      = Some \<lparr>version = Some 0, pv_traceId = Some (traceId s), pv_spanId = Some (spanId s),
               pv_sample = sample s\<rparr>"
  using traceparent_parts [OF assms]
  by (simp add: makeParentObj_def index_opt_def or_zero_def parseInt16_flag flag_bit0_def Let_def)

theorem traceparent_roundtrip_witness:
  "CHR ''-'' \<notin> set (traceId example_span)
   \<and> CHR ''-'' \<notin> set (spanId example_span)
   \<and> makeParentObj (ParentString (traceparent example_span))
       = Some \<lparr>version = Some 0,
                pv_traceId = Some ''0af7651916cd43dd8448eb211c80319c'',
                pv_spanId = Some ''b7ad6b7169203331'',
                pv_sample = True\<rparr>"
  using traceparent_roundtrip [of example_span]
  by (simp add: example_span_def)

text \<open>
  Without the condition on the ids the statement fails.  \<^verbatim>\<open>makeSpan\<close> copies the
  \<^verbatim>\<open>traceId\<close> of a parent object as it is, so a parent \<^verbatim>\<open>{ traceId: 'a-b', ... }\<close>
  gives a running span with \<^verbatim>\<open>traceId\<close> \<^verbatim>\<open>'a-b'\<close>; its traceparent text is split at
  every \<open>-\<close> and parses to the trace id \<^verbatim>\<open>'a'\<close> and the span id \<^verbatim>\<open>'b'\<close>.
\<close>

lemma dashed_parent_traceId: "traceId dashed_parent_span = ''a-b''"
  by (simp add: dashed_parent_span_def makeSpan_def makeParentObj_def overlay_span_def Let_def
      case_prod_beta)

lemma dashed_parent_parts:
  "\<exists>rest. split_on (CHR ''-'') (traceparent dashed_parent_span) = ''00'' # ''a'' # ''b'' # rest"
proof -
  let ?tail = "spanId dashed_parent_span @ ''-''
      @ Number_toString 16 (if sample dashed_parent_span then 1 else 0)"
  have "traceparent dashed_parent_span
      = ''00'' @ CHR ''-'' # (''a'' @ CHR ''-'' # (''b'' @ CHR ''-'' # ?tail))"
    by (simp add: traceparent_def dashed_parent_traceId)
  then have "split_on (CHR ''-'') (traceparent dashed_parent_span)
      = ''00'' # ''a'' # ''b'' # split_on (CHR ''-'') ?tail"
    by (simp only: split_on_append) (simp add: split_on_append)
  then show ?thesis by blast
qed

theorem traceparent_roundtrip_dash_counterexample:
  "traceId dashed_parent_span = ''a-b''
   \<and> map_option pv_traceId (makeParentObj (ParentString (traceparent dashed_parent_span)))
       = Some (Some ''a'')
   \<and> map_option pv_spanId (makeParentObj (ParentString (traceparent dashed_parent_span)))
       = Some (Some ''b'')
   \<and> map_option pv_traceId (makeParentObj (ParentString (traceparent dashed_parent_span)))
       \<noteq> Some (Some (traceId dashed_parent_span))"
proof -
  from dashed_parent_parts obtain rest
    where "split_on (CHR ''-'') (traceparent dashed_parent_span) = ''00'' # ''a'' # ''b'' # rest"
    by blast
  then show ?thesis
    by (simp add: makeParentObj_def index_opt_def Let_def dashed_parent_traceId)
qed

subsection \<open>tracer and makeSpan\<close>

text \<open>
  C1.  The claim is that the log record emitted by \<^verbatim>\<open>tracer(e, p).log(scope, severity,
  message, record?)\<close> carries the \<^verbatim>\<open>traceId\<close> and \<^verbatim>\<open>spanId\<close> of the fixed parent
  \<open>p\<close> and has the fields of \<^verbatim>\<open>record\<close> applied.  The closure passes \<^verbatim>\<open>record\<close> in
  the position of \<^verbatim>\<open>parent\<close> and nothing in the position of the customization
  object, so for every parent the emitted record is the one below: its \<^verbatim>\<open>traceId\<close> and
  \<^verbatim>\<open>spanId\<close> are those of \<^verbatim>\<open>record\<close> (absent when \<^verbatim>\<open>record\<close> is absent), the
  parent is never read, and no other field of \<^verbatim>\<open>record\<close> is applied.
\<close>

theorem tracer_log_ignores_parent:
  "snd (fst (tracer_log exporter parent scope severity msg rec w)) =
     [[\<lparr>item_scope = scope, item_context = None, item_span = None,
        item_log = Some
          \<lparr>timeUnixNano = fst (now w),
           observedTimeUnixNano = None,
           severityNumber = Some severity,
           severityText = None,
           body = Some (string_value msg),
           log_attributes = None,
           droppedAttributesCount = None,
           flags = None,
           log_traceId = Option.bind rec r_traceId,
           log_spanId = Option.bind rec r_spanId\<rparr>,
        item_metric = None\<rparr>]]"
  by (cases rec)
    (simp_all add: tracer_log_def log_js_def record_as_parent_def makeParentObj_def
      overlay_log_def Let_def split: prod.splits)

text \<open>With a parent and no \<^verbatim>\<open>record\<close> the emitted log record has no \<^verbatim>\<open>traceId\<close>.\<close>

lemma tracer_log_example:
  "map (map (\<lambda>i. map_option log_traceId (item_log i)))
     (snd (fst (tracer_log exporter
        (ParentObject (Some ''0af7651916cd43dd8448eb211c80319c'') (Some ''b7ad6b7169203331'') (Some True))
        (ScopeName ''app'') 9 ''hi'' None w)))
   = [[Some None]]"
  by (simp add: tracer_log_def log_js_def record_as_parent_def makeParentObj_def
      overlay_log_def Let_def split: prod.splits)

text \<open>
  What ``freshly generated'' means for \<^verbatim>\<open>makeSpan\<close>: when every \<^verbatim>\<open>Math.random()\<close>
  is in \<open>[0, 1)\<close>, \<^verbatim>\<open>id(n)\<close> is a text of \<open>2n\<close> lower-case hexadecimal digits; the
  span id is always \<^verbatim>\<open>id(8)\<close> and is never read from the parent; the trace id is
  \<^verbatim>\<open>id(16)\<close> exactly when the parent is absent or gives no trace id.
\<close>

lemma digit_char_hex: "d < 16 \<Longrightarrow> digit_char d \<in> hex_chars"
proof -
  assume "d < 16"
  then have "d = 0 \<or> d = 1 \<or> d = 2 \<or> d = 3 \<or> d = 4 \<or> d = 5 \<or> d = 6 \<or> d = 7
      \<or> d = 8 \<or> d = 9 \<or> d = 10 \<or> d = 11 \<or> d = 12 \<or> d = 13 \<or> d = 14 \<or> d = 15"
    by arith
  then show ?thesis
    by (elim disjE) (simp_all add: digit_char_def hex_chars_def)
qed

lemma hex_byte:
  assumes "n < 256"
  shows "length (padStart 2 (CHR ''0'') (digits 16 n)) = 2"
    and "set (padStart 2 (CHR ''0'') (digits 16 n)) \<subseteq> hex_chars"
proof -
  have "padStart 2 (CHR ''0'') (digits 16 n) =
      (if n < 16 then [CHR ''0'', digit_char n] else [digit_char (n div 16), digit_char (n mod 16)])"
  proof (cases "n < 16")
    case True
    then show ?thesis by (simp add: digits_small padStart_def)
  next
    case False
    with assms have "n div 16 < 16" by simp
    with False show ?thesis
      by (simp add: digits_step digits_small padStart_def)
  qed
  moreover have "CHR ''0'' \<in> hex_chars" by (simp add: hex_chars_def)
  moreover from assms have "n div 16 < 16" by simp
  ultimately show "length (padStart 2 (CHR ''0'') (digits 16 n)) = 2"
    and "set (padStart 2 (CHR ''0'') (digits 16 n)) \<subseteq> hex_chars"
    by (simp_all add: digit_char_hex)
qed

lemma random_byte:
  assumes "0 \<le> r" and "r < 1"
  shows "0 \<le> bitor_zero (r * 255)" and "bitor_zero (r * 255) < 255"
proof -
  from assms have nn: "0 \<le> r * 255" by simp
  from assms have "r * 255 < 255" by simp
  then have "\<lfloor>r * 255\<rfloor> < 255" by (simp add: floor_less_iff)
  moreover from nn have "0 \<le> \<lfloor>r * 255\<rfloor>" by simp
  ultimately show "0 \<le> bitor_zero (r * 255)" and "bitor_zero (r * 255) < 255"
    using nn by (simp_all add: bitor_zero_def js_trunc_def ToInt32_def Let_def)
qed

lemma id_js_hex:
  "unit_random w \<Longrightarrow>
     length (fst (id_js n w)) = 2 * n \<and> set (fst (id_js n w)) \<subseteq> hex_chars"
proof (induction n arbitrary: w)
  case 0
  then show ?case by simp
next
  case (Suc n)
  let ?r = "random_values w (random_calls w)"
  let ?w1 = "w\<lparr>random_calls := Suc (random_calls w)\<rparr>"
  from Suc.prems have r: "0 \<le> ?r" "?r < 1" by (simp_all add: unit_random_def)
  from Suc.prems have "unit_random ?w1" by (simp add: unit_random_def)
  from Suc.IH [OF this] have ih: "length (fst (id_js n ?w1)) = 2 * n"
    "set (fst (id_js n ?w1)) \<subseteq> hex_chars" by simp_all
  let ?b = "bitor_zero (?r * 255)"
  from random_byte [OF r] have b: "0 \<le> ?b" "nat ?b < 256" by simp_all
  have piece: "Number_toString 16 ?b = digits 16 (nat ?b)"
    using b(1) by (simp add: Number_toString_def)
  have "fst (id_js (Suc n) w) = padStart 2 (CHR ''0'') (digits 16 (nat ?b)) @ fst (id_js n ?w1)"
    by (simp add: Math_random_def piece case_prod_beta)
  with hex_byte [OF b(2)] ih show ?case by simp
qed

lemma makeSpan_ids:
  "traceId (fst (makeSpan P None w)) =
     (case Option.bind (makeParentObj P) pv_traceId of
        Some t \<Rightarrow> t
      | None \<Rightarrow> fst (id_js 16 (snd (now w))))"
  "spanId (fst (makeSpan P None w)) =
     fst (id_js 8 (case Option.bind (makeParentObj P) pv_traceId of
                     Some t \<Rightarrow> snd (now w)
                   | None \<Rightarrow> snd (id_js 16 (snd (now w)))))"
  by (simp_all add: makeSpan_def overlay_span_def Let_def case_prod_beta split: option.splits)

lemma now_random: "unit_random w \<Longrightarrow> unit_random (snd (now w))"
  by (simp add: now_def Date_now_def unit_random_def)

lemma id_js_random: "unit_random w \<Longrightarrow> unit_random (snd (id_js n w))"
  by (induction n arbitrary: w) (simp_all add: Math_random_def unit_random_def case_prod_beta)

lemma makeSpan_fresh_ids:
  assumes "unit_random w"
  shows "length (spanId (fst (makeSpan P None w))) = 16"
    and "set (spanId (fst (makeSpan P None w))) \<subseteq> hex_chars"
    and "Option.bind (makeParentObj P) pv_traceId = None \<Longrightarrow>
           length (traceId (fst (makeSpan P None w))) = 32
           \<and> set (traceId (fst (makeSpan P None w))) \<subseteq> hex_chars"
proof -
  let ?w' = "case Option.bind (makeParentObj P) pv_traceId of
               Some t \<Rightarrow> snd (now w)
             | None \<Rightarrow> snd (id_js 16 (snd (now w)))"
  from assms have "unit_random ?w'"
    by (simp add: now_random id_js_random split: option.splits)
  from id_js_hex [OF this, of 8]
  show "length (spanId (fst (makeSpan P None w))) = 16"
    and "set (spanId (fst (makeSpan P None w))) \<subseteq> hex_chars"
    by (simp_all add: makeSpan_ids(2))
  assume "Option.bind (makeParentObj P) pv_traceId = None"
  with id_js_hex [OF now_random [OF assms], of 16]
  show "length (traceId (fst (makeSpan P None w))) = 32
      \<and> set (traceId (fst (makeSpan P None w))) \<subseteq> hex_chars"
    by (simp add: makeSpan_ids(1))
qed

lemma split_on_parts: "p \<in> set (split_on sep s) \<Longrightarrow> sep \<notin> set p"
proof (induction s arbitrary: p)
  case Nil
  then show ?case by simp
next
  case (Cons c cs)
  show ?case
  proof (cases "c = sep")
    case True
    with Cons show ?thesis by auto
  next
    case False
    obtain q qs where q: "split_on sep cs = q # qs"
      using split_on_nonempty [of sep cs] by (cases "split_on sep cs") auto
    with False Cons.prems have "p = c # q \<or> p \<in> set qs" by simp
    then show ?thesis
    proof
      assume "p = c # q"
      with False Cons.IH [of q] q show ?thesis by simp
    next
      assume "p \<in> set qs"
      with Cons.IH [of p] q show ?thesis by simp
    qed
  qed
qed

text \<open>
  The ids of a span made by \<^verbatim>\<open>makeSpan\<close> contain no \<open>-\<close>, unless a parent object
  hands in a trace id that contains one.
\<close>

lemma makeSpan_ids_no_dash:
  assumes "unit_random w"
    and "\<And>t s b. P = ParentObject (Some t) s b \<Longrightarrow> CHR ''-'' \<notin> set t"
  shows "CHR ''-'' \<notin> set (traceId (fst (makeSpan P None w)))"
    and "CHR ''-'' \<notin> set (spanId (fst (makeSpan P None w)))"
proof -
  have nd: "CHR ''-'' \<notin> hex_chars" by (simp add: hex_chars_def)
  from makeSpan_fresh_ids(2) [OF assms(1), of P] nd
  show "CHR ''-'' \<notin> set (spanId (fst (makeSpan P None w)))" by blast
  show "CHR ''-'' \<notin> set (traceId (fst (makeSpan P None w)))"
  proof (cases "Option.bind (makeParentObj P) pv_traceId")
    case None
    from makeSpan_fresh_ids(3) [OF assms(1) None] nd show ?thesis by blast
  next
    case (Some t)
    then have tid: "traceId (fst (makeSpan P None w)) = t" by (simp add: makeSpan_ids(1))
    show ?thesis
    proof (cases P)
      case (ParentString str)
      with Some have "t \<in> set (split_on (CHR ''-'') str)"
        by (auto simp: makeParentObj_def index_opt_def Let_def split: if_splits)
      then show ?thesis unfolding tid by (rule split_on_parts)
    next
      case (ParentObject t' s b)
      with Some have "t' = Some t" by (simp add: makeParentObj_def)
      with ParentObject assms(2) show ?thesis unfolding tid by simp
    next
      case ParentAbsent
      with Some show ?thesis by (simp add: makeParentObj_def)
    qed
  qed
qed

text \<open>
  C8.  The claim is that \<^verbatim>\<open>makeSpan(P)\<close> takes the \<^verbatim>\<open>traceId\<close> of \<open>P\<close> when it is
  non-empty and generates a fresh 32-character id otherwise.  The code tests with
  \<^verbatim>\<open>??\<close>, which only replaces \<^verbatim>\<open>undefined\<close>: a parent object with the empty string as
  \<^verbatim>\<open>traceId\<close>, and a traceparent string with an empty second field, give a span whose
  \<^verbatim>\<open>traceId\<close> is the empty string.
\<close>

theorem makeSpan_keeps_empty_traceId:
  "traceId (fst (makeSpan (ParentObject (Some []) (Some sid) smp) None w)) = []
   \<and> traceId (fst (makeSpan (ParentString ''00--b7ad6b7169203331-01'') None w)) = []"
  by (simp add: makeSpan_def makeParentObj_def overlay_span_def index_opt_def Let_def
      split: prod.splits)

lemma makeSpan_sample_absent: "sample (fst (makeSpan ParentAbsent None w))"
  by (simp add: makeSpan_def makeParentObj_def overlay_span_def Let_def split: prod.splits)

subsection \<open>runSpan\<close>

lemma mark_sample [simp]: "sample (fst (mark nm attrs s w)) = sample s"
  by (simp add: mark_def case_prod_beta)

lemma exec_op_keeps_unsampled:
  "\<not> resamples op \<Longrightarrow> \<not> sample (fst sw) \<Longrightarrow> \<not> sample (fst (exec_op sw op))"
  by (cases sw; cases op) (auto simp: cancel_def overlay_span_def split: option.splits)

lemma foldl_keeps_unsampled:
  "\<not> list_ex resamples os \<Longrightarrow> \<not> sample (fst sw) \<Longrightarrow> \<not> sample (fst (foldl exec_op sw os))"
  by (induction os arbitrary: sw) (simp_all add: exec_op_keeps_unsampled)

lemma exec_op_cancel: "\<not> sample (fst (exec_op sw Cancel))"
  by (cases sw) (simp add: cancel_def)

lemma cancel_stands_unsampled:
  "cancel_stands os \<Longrightarrow> \<not> sample (fst (foldl exec_op sw os))"
proof (induction os arbitrary: sw)
  case Nil
  then show ?case by simp
next
  case (Cons op os)
  show ?case
  proof (cases "cancel_stands os")
    case True
    then show ?thesis using Cons.IH by simp
  next
    case False
    with Cons.prems have c: "op = Cancel" and nr: "\<not> list_ex resamples os"
      by (cases op; simp)+
    from nr exec_op_cancel [of sw] show ?thesis
      unfolding c by (simp add: foldl_keeps_unsampled)
  qed
qed

text \<open>
  \<open>cancel_stands\<close> says what it is meant to say: the operations contain a \<open>Cancel\<close>
  after which \<^verbatim>\<open>sample\<close> is never assigned \<^verbatim>\<open>true\<close>.
\<close>

lemma cancel_stands_iff:
  "cancel_stands os \<longleftrightarrow> (\<exists>pre post. os = pre @ Cancel # post \<and> \<not> list_ex resamples post)"
proof (induction os)
  case Nil
  then show ?case by simp
next
  case (Cons op os)
  show ?case
  proof
    assume cs: "cancel_stands (op # os)"
    show "\<exists>pre post. op # os = pre @ Cancel # post \<and> \<not> list_ex resamples post"
    proof (cases "cancel_stands os")
      case True
      with Cons.IH obtain pre post where "os = pre @ Cancel # post" "\<not> list_ex resamples post"
        by blast
      then have "op # os = (op # pre) @ Cancel # post \<and> \<not> list_ex resamples post" by simp
      then show ?thesis by blast
    next
      case False
      with cs have "op = Cancel" "\<not> list_ex resamples os" by (cases op; simp)+
      then have "op # os = [] @ Cancel # os \<and> \<not> list_ex resamples os" by simp
      then show ?thesis by blast
    qed
  next
    assume "\<exists>pre post. op # os = pre @ Cancel # post \<and> \<not> list_ex resamples post"
    then obtain pre post where eq: "op # os = pre @ Cancel # post"
      and nr: "\<not> list_ex resamples post" by blast
    show "cancel_stands (op # os)"
    proof (cases pre)
      case Nil
      with eq nr show ?thesis by simp
    next
      case more: (Cons p pre')
      with eq have "os = pre' @ Cancel # post" by simp
      with nr Cons.IH have "cancel_stands os" by blast
      then show ?thesis by (cases op) simp_all
    qed
  qed
qed

text \<open>The attributes of the \<^verbatim>\<open>error\<close> event, in order.\<close>

lemma errorAttributes_keys:
  "map fst (errorAttributes e) = [''kind'', ''message'', ''type'', ''stacktrace'']"
  by (simp add: errorAttributes_def)

lemma runSpan_final_span:
  "final_span (runSpan exporter scope parent fn w) =
     (case outcome (fn (fst (makeSpan parent None w))) of
        Inr v \<Rightarrow> fst (after_body parent fn w)
      | Inl ex \<Rightarrow>
          fst (mark ''error'' (Some (errorAttributes ex))
                 ((fst (after_body parent fn w))\<lparr>status := Some \<lparr>message = ''ERROR'', code = 2\<rparr>\<rparr>)
                 (snd (after_body parent fn w))))
       \<lparr>endTimeUnixNano :=
          Some (fst (now (snd
            (case outcome (fn (fst (makeSpan parent None w))) of
               Inr v \<Rightarrow> after_body parent fn w
             | Inl ex \<Rightarrow>
                 mark ''error'' (Some (errorAttributes ex))
                   ((fst (after_body parent fn w))\<lparr>status := Some \<lparr>message = ''ERROR'', code = 2\<rparr>\<rparr>)
                   (snd (after_body parent fn w))))))\<rparr>"
  by (simp add: runSpan_def after_body_def Let_def case_prod_beta split: sum.splits)

lemma runSpan_sample:
  "sample (final_span (runSpan exporter scope parent fn w)) = sample (fst (after_body parent fn w))"
  by (simp add: runSpan_final_span split: sum.splits)

lemma runSpan_export:
  "export_error (runSpan exporter scope parent fn w) =
     (case exporter of
        None \<Rightarrow> None
      | Some ex \<Rightarrow>
          if sample (final_span (runSpan exporter scope parent fn w))
          then ex [span_item scope (final_span (runSpan exporter scope parent fn w))]
          else None)"
  "exported (runSpan exporter scope parent fn w) =
     (case exporter of
        None \<Rightarrow> []
      | Some ex \<Rightarrow>
          if sample (final_span (runSpan exporter scope parent fn w))
          then [[span_item scope (final_span (runSpan exporter scope parent fn w))]]
          else [])"
  "result (runSpan exporter scope parent fn w) =
     (case export_error (runSpan exporter scope parent fn w) of
        None \<Rightarrow> outcome (fn (fst (makeSpan parent None w)))
      | Some e \<Rightarrow> Inl e)"
  by (simp_all add: runSpan_def span_item_def Let_def case_prod_beta split: option.splits)





text \<open>
  C7.  If \<^verbatim>\<open>cancel()\<close> is called on the running span during the body and
  \<^verbatim>\<open>sample\<close> is not set back to true afterwards, the \<^verbatim>\<open>finally\<close> block makes no
  call to the exporter, whether the body returns or throws; \<^verbatim>\<open>runSpan\<close> then settles
  the way the body did.
\<close>

theorem cancel_suppresses_export:
  assumes "cancel_stands (ops (fn (fst (makeSpan parent None w))))"
  shows "exported (runSpan exporter scope parent fn w) = []
    \<and> export_error (runSpan exporter scope parent fn w) = None
    \<and> result (runSpan exporter scope parent fn w) = outcome (fn (fst (makeSpan parent None w)))"
proof -
  from assms have "\<not> sample (fst (after_body parent fn w))"
    unfolding after_body_def by (rule cancel_stands_unsampled)
  then have ns: "\<not> sample (final_span (runSpan exporter scope parent fn w))"
    by (simp add: runSpan_sample)
  have x: "exported (runSpan exporter scope parent fn w) = []"
    using ns by (cases exporter) (simp_all add: runSpan_export(2))
  have e: "export_error (runSpan exporter scope parent fn w) = None"
    using ns by (cases exporter) (simp_all add: runSpan_export(1))
  from x e show ?thesis
    by (simp add: runSpan_export(3))
qed

theorem cancel_suppresses_export_witness:
  "cancel_stands (ops ((\<lambda>s. \<lparr>ops = [Cancel, Mark ''late'' None], outcome = Inr (7 :: nat)\<rparr>)
        (fst (makeSpan ParentAbsent None world0))))
   \<and> exported (runSpan (Some (\<lambda>items. None)) (ScopeName ''app'') ParentAbsent
        (\<lambda>s. \<lparr>ops = [Cancel, Mark ''late'' None], outcome = Inr (7 :: nat)\<rparr>) world0) = []
   \<and> cancel_stands (ops ((\<lambda>s. \<lparr>ops = [Cancel], outcome = Inl boom :: jserror + nat\<rparr>)
        (fst (makeSpan ParentAbsent None world0))))
   \<and> exported (runSpan (Some (\<lambda>items. None)) (ScopeName ''app'') ParentAbsent
        (\<lambda>s. \<lparr>ops = [Cancel], outcome = Inl boom :: jserror + nat\<rparr>) world0) = []
   \<and> result (runSpan (Some (\<lambda>items. None)) (ScopeName ''app'') ParentAbsent
        (\<lambda>s. \<lparr>ops = [Cancel], outcome = Inl boom :: jserror + nat\<rparr>) world0) = Inl boom"
proof -
  let ?ret = "\<lambda>s :: Span. \<lparr>ops = [Cancel, Mark ''late'' None], outcome = Inr (7 :: nat)\<rparr>"
  let ?thr = "\<lambda>s :: Span. \<lparr>ops = [Cancel], outcome = Inl boom :: jserror + nat\<rparr>"
  have h1: "cancel_stands (ops (?ret (fst (makeSpan ParentAbsent None world0))))"
    by simp
  have h2: "cancel_stands (ops (?thr (fst (makeSpan ParentAbsent None world0))))"
    by simp
  from cancel_suppresses_export [OF h1, of "Some (\<lambda>items. None)" "ScopeName ''app''"]
    cancel_suppresses_export [OF h2, of "Some (\<lambda>items. None)" "ScopeName ''app''"]
    h1 h2
  show ?thesis by simp
qed

section \<open>Collector payload shaper\<close>

text \<open>
  C5.  The claim is that every item of a batch contributes to at most one output
  category.  The span branch, the exception branch and the event branch end with
  \<^verbatim>\<open>continue\<close>; the plain log branch does not, so control falls through to the metric
  test.  An item that carries a plain log record and a gauge metric therefore produces
  a log entry and a measurement: for every host, whenever the time stamp converts, the
  batch of the single item \<open>log_and_metric_item\<close> gives one entry in \<^verbatim>\<open>logs\<close> and one in
  \<^verbatim>\<open>measurements\<close>.
\<close>

theorem collect_log_and_metric_twice:
  "collect h [log_and_metric_item] =
     (case isoTimestamp h ''1700000000000000000'' of
        Inl e \<Rightarrow> Inl e
      | Inr timestamp \<Rightarrow>
          Inr \<lparr>traces = [],
               logs = [\<lparr>l_timestamp = timestamp, l_message = Some ''hi'', l_level = ''info'',
                        l_context = [], l_trace = None\<rparr>],
               measurements = [\<lparr>m_type = ''web'', m_values = [(''cls'', Some 12)]\<rparr>],
               exceptions = [],
               faro_events = []\<rparr>)"
  by (simp add: collect_def collect_item_def add_log_def add_metric_def log_and_metric_item_def
      collected_empty_def fromEntries_def makeScope_def getFaroLogLevel_def string_value_def
      Number_of_def Let_def split: sum.splits)

end
